theory Spec2Isabelle
  imports Complex_Main "HOL-Library.AList"
begin

section \<open>JavaScript values\<close>

text \<open>
  The values that travel through the program are JSON values: the arguments of a tool,
  the request bodies and the decoded response bodies (\<open>response.data\<close>). A number is a
  rational (every finite double is one); the program only tests numbers for zero and
  renders them as text. \<open>undefined\<close> is not a JSON value: a property read yields a
  \<open>json option\<close>, \<open>None\<close> being \<open>undefined\<close>. An object is the list of its own
  properties in insertion order.
\<close>

datatype json =
    JNull
  | JBool bool
  | JNum rat
  | JStr string
  | JArr "json list"
  | JObj "(string \<times> json) list"

text \<open>JavaScript's ToBoolean: \<open>null\<close>, \<open>false\<close>, \<open>0\<close> and \<open>""\<close> are falsy, as is \<open>undefined\<close>.\<close>

fun truthy :: "json \<Rightarrow> bool" where
  "truthy JNull = False"
| "truthy (JBool b) = b"
| "truthy (JNum r) = (r \<noteq> 0)"
| "truthy (JStr s) = (s \<noteq> [])"
| "truthy (JArr xs) = True"
| "truthy (JObj kvs) = True"

fun truthy_opt :: "json option \<Rightarrow> bool" where
  "truthy_opt None = False"
| "truthy_opt (Some v) = truthy v"

text \<open>\<open>a || b\<close>: the left operand when it is truthy, the right one otherwise.\<close>

fun or_else :: "json option \<Rightarrow> json \<Rightarrow> json" where
  "or_else None d = d"
| "or_else (Some v) d = (if truthy v then v else d)"

text \<open>
  The same operator on an optional string argument (\<open>reason || "..."\<close>) and on an
  optional number argument (\<open>days || 90\<close>).
\<close>

fun str_or :: "string option \<Rightarrow> string \<Rightarrow> string" where
  "str_or None d = d"
| "str_or (Some s) d = (if s \<noteq> [] then s else d)"

fun num_or :: "rat option \<Rightarrow> rat \<Rightarrow> rat" where
  "num_or None d = d"
| "num_or (Some r) d = (if r \<noteq> 0 then r else d)"

text \<open>\<open>if (s)\<close> on an optional string: it is supplied and not empty.\<close>

fun str_truthy :: "string option \<Rightarrow> bool" where
  "str_truthy None = False"
| "str_truthy (Some s) = (s \<noteq> [])"

subsection \<open>Errors\<close>

text \<open>
  What a \<open>catch (error: any)\<close> of the program can receive: the plain \<open>Error\<close> thrown by
  \<open>getClient\<close>, a system error of \<open>fs.readFileSync\<close>, a \<open>TypeError\<close> of a property read
  on \<open>null\<close> or of a call of something that is no function, and the error a failed
  request is rejected with, which carries the body of the response when there was one.
\<close>

datatype js_error =
    Error string
  | SystemError string
  | TypeError string
  | AxiosError string "json option"

fun message :: "js_error \<Rightarrow> string" where
  "message (Error m) = m"
| "message (SystemError m) = m"
| "message (TypeError m) = m"
| "message (AxiosError m r) = m"

text \<open>\<open>error.response?.data\<close>: only a failed request has a response.\<close>

fun response_data :: "js_error \<Rightarrow> json option" where
  "response_data (AxiosError m r) = r"
| "response_data e = None"

text \<open>
  A property read \<open>v.name\<close>. On \<open>null\<close> it throws (the wording is V8's); on an object it
  is the own property of that name, if any; on a boolean, a number, a string or an array
  it is \<open>undefined\<close> for every name the program reads (\<open>responseData\<close>, \<open>atmList\<close>,
  \<open>atmName\<close>, \<open>address\<close>, \<open>street\<close>, \<open>city\<close>, \<open>distance\<close>, \<open>conversionRate\<close>,
  \<open>destinationAmount\<close>, \<open>message\<close>), none of which is a property of a prototype.
\<close>

fun get_prop :: "json \<Rightarrow> string \<Rightarrow> js_error + json option" where
  "get_prop JNull name =
     Inl (TypeError (''Cannot read properties of null (reading '' @ [CHR 0x27] @ name @ [CHR 0x27] @ '')''))"
| "get_prop (JObj kvs) name = Inr (map_of kvs name)"
| "get_prop v name = Inr None"

text \<open>Optional chaining \<open>v?.name\<close>: \<open>undefined\<close> when \<open>v\<close> is \<open>undefined\<close> or \<open>null\<close>.\<close>

fun get_prop_opt :: "json option \<Rightarrow> string \<Rightarrow> json option" where
  "get_prop_opt None name = None"
| "get_prop_opt (Some JNull) name = None"
| "get_prop_opt (Some (JObj kvs)) name = map_of kvs name"
| "get_prop_opt (Some v) name = None"

subsection \<open>The host's renderings\<close>

text \<open>
  Two built-ins of the language are parameters of the model: the text of a number
  (\<open>Number.prototype.toString\<close>, which depends on the floating-point value) and
  \<open>JSON.stringify(data, null, 2)\<close>. Every theorem holds for all of them.
\<close>

record host =
  numToString :: "rat \<Rightarrow> string"
  jsonStringify :: "json \<Rightarrow> string"

text \<open>\<open>Array.prototype.join\<close> on strings.\<close>

fun join :: "string \<Rightarrow> string list \<Rightarrow> string" where
  "join sep [] = []"
| "join sep [s] = s"
| "join sep (s # t # ss) = s @ sep @ join sep (t # ss)"

text \<open>The results of a list of steps, or the first exception among them.\<close>

fun collect :: "('e + 'a) list \<Rightarrow> 'e + 'a list" where
  "collect [] = Inr []"
| "collect (Inl e # rs) = Inl e"
| "collect (Inr x # rs) = (case collect rs of Inl e \<Rightarrow> Inl e | Inr xs \<Rightarrow> Inr (x # xs))"

definition cannot_convert :: js_error where
  "cannot_convert = TypeError ''Cannot convert object to primitive value''"

text \<open>
  ToString, as a template literal applies it. An array joins the texts of its elements
  with commas, \<open>null\<close> elements giving the empty string. An object is converted by its
  \<open>toString\<close> method: an object decoded from JSON inherits the one that returns
  \<open>[object Object]\<close>, unless it has a property of its own named \<open>toString\<close>, whose
  value is no function; then neither it nor the inherited \<open>valueOf\<close> yields a primitive,
  and the conversion throws a \<open>TypeError\<close> (the wording is V8's).
\<close>

fun toStr :: "host \<Rightarrow> json \<Rightarrow> js_error + string" where
  "toStr h JNull = Inr ''null''"
| "toStr h (JBool b) = Inr (if b then ''true'' else ''false'')"
| "toStr h (JNum r) = Inr (numToString h r)"
| "toStr h (JStr s) = Inr s"
| "toStr h (JArr xs) =
     (case collect (map (\<lambda>x. if x = JNull then Inr [] else toStr h x) xs) of
        Inl e \<Rightarrow> Inl e
      | Inr ss \<Rightarrow> Inr (join '','' ss))"
| "toStr h (JObj kvs) =
     (if map_of kvs ''toString'' = None then Inr ''[object Object]'' else Inl cannot_convert)"

text \<open>The values that ToString converts without an exception.\<close>

fun printable :: "json \<Rightarrow> bool" where
  "printable (JArr xs) = (\<forall>x \<in> set xs. x = JNull \<or> printable x)"
| "printable (JObj kvs) = (map_of kvs ''toString'' = None)"
| "printable v = True"

text \<open>The decimal text of a natural number (\<open>atms.length\<close>, \<open>i + 1\<close>).\<close>

fun show_nat :: "nat \<Rightarrow> string" where
  "show_nat n =
     (if n < 10 then [''0123456789'' ! n]
      else show_nat (n div 10) @ [''0123456789'' ! (n mod 10)])"

declare show_nat.simps [simp del]

section \<open>The authenticated client (visa-client.ts)\<close>

datatype environment = Sandbox | Production

fun environment_name :: "environment \<Rightarrow> string" where
  "environment_name Sandbox = ''sandbox''"
| "environment_name Production = ''production''"

record visa_client_config =
  userId :: string
  password :: string
  certPath :: string
  keyPath :: string
  caPath :: "string option"
  environment :: environment

record https_agent =
  cert :: string
  key :: string
  ca :: "string option"
  rejectUnauthorized :: bool

record axios_instance =
  baseURL :: string
  httpsAgent :: https_agent
  auth :: "string \<times> string"
  headers :: "(string \<times> string) list"

record visa_client =
  client :: "axios_instance option"
  config :: visa_client_config
  baseUrl :: string
  initialized :: bool

definition constructor :: "visa_client_config \<Rightarrow> visa_client" where
  "constructor cfg =
     \<lparr> client = None,
       config = cfg,
       baseUrl = (if environment cfg = Sandbox then ''https://sandbox.api.visa.com''
                  else ''https://api.visa.com''),
       initialized = False \<rparr>"

subsection \<open>The file system\<close>

text \<open>
  A path names a regular file with its contents, a directory, or nothing.
  \<open>fs.existsSync\<close> is true of files and directories; \<open>fs.readFileSync\<close> returns the
  contents of a regular file and throws otherwise.
\<close>

datatype fsnode = File string | Dir

type_synonym filesystem = "string \<Rightarrow> fsnode option"

definition existsSync :: "filesystem \<Rightarrow> string \<Rightarrow> bool" where
  "existsSync fs p = (fs p \<noteq> None)"

definition readFileSync :: "filesystem \<Rightarrow> string \<Rightarrow> js_error + string" where
  "readFileSync fs p =
     (case fs p of
        None \<Rightarrow> Inl (SystemError (''ENOENT: no such file or directory, open '' @ [CHR 0x27] @ p @ [CHR 0x27]))
      | Some Dir \<Rightarrow> Inl (SystemError ''EISDIR: illegal operation on a directory, read'')
      | Some (File s) \<Rightarrow> Inr s)"

subsection \<open>Effects\<close>

datatype http_verb = GET | POST

text \<open>
  Everything the client does to the outside is recorded, in order: the file-system
  calls, the console lines, the construction of an HTTPS agent and of an axios instance,
  and each HTTP request with the instance it is sent through, its verb, its path and its
  body.
\<close>

datatype event =
    ExistsSync string
  | ReadFileSync string
  | ConsoleWarn string
  | ConsoleLog string
  | NewAgent https_agent
  | AxiosCreate axios_instance
  | HttpRequest axios_instance http_verb string "json option"

fun is_request :: "event \<Rightarrow> bool" where
  "is_request (HttpRequest i v p b) = True"
| "is_request e = False"

text \<open>A request sent through a given instance; the construction of an instance; a file-system call.\<close>

fun uses :: "axios_instance \<Rightarrow> event \<Rightarrow> bool" where
  "uses inst (HttpRequest i v p b) = (i = inst)"
| "uses inst e = False"

fun is_create :: "event \<Rightarrow> bool" where
  "is_create (AxiosCreate i) = True"
| "is_create e = False"

fun is_probe :: "event \<Rightarrow> bool" where
  "is_probe (ExistsSync p) = True"
| "is_probe (ReadFileSync p) = True"
| "is_probe e = False"

text \<open>The bodies of the requests of a trace, and whether an object has a property.\<close>

fun request_body :: "event \<Rightarrow> json option" where
  "request_body (HttpRequest i v p b) = b"
| "request_body e = None"

definition bodies :: "event list \<Rightarrow> json list" where
  "bodies t = List.map_filter request_body t"

fun has_field :: "string \<Rightarrow> json \<Rightarrow> bool" where
  "has_field k (JObj kvs) = (map_of kvs k \<noteq> None)"
| "has_field k v = False"

text \<open>The pictographs of the console lines, as their UTF-8 bytes.\<close>

definition warning_sign :: string where
  "warning_sign = [CHR 0xE2, CHR 0x9A, CHR 0xA0, CHR 0xEF, CHR 0xB8, CHR 0x8F]"

definition check_mark :: string where
  "check_mark = [CHR 0xE2, CHR 0x9C, CHR 0x85]"

subsection \<open>Lazy initialization\<close>

text \<open>
  The \<open>ca\<close> option of the agent:
  \<open>caPath && fs.existsSync(caPath) ? fs.readFileSync(caPath) : undefined\<close>.
\<close>

definition load_ca :: "filesystem \<Rightarrow> string option \<Rightarrow> (js_error + string option) \<times> event list" where
  "load_ca fs cap =
     (case cap of
        None \<Rightarrow> (Inr None, [])
      | Some p \<Rightarrow>
          if p = [] then (Inr None, [])
          else if \<not> existsSync fs p then (Inr None, [ExistsSync p])
          else (case readFileSync fs p of
                  Inl e \<Rightarrow> (Inl e, [ExistsSync p, ReadFileSync p])
                | Inr s \<Rightarrow> (Inr (Some s), [ExistsSync p, ReadFileSync p])))"

text \<open>
  \<open>initialize\<close> returns the outcome (an exception of \<open>readFileSync\<close>, or a normal
  return), the client after the call and the effects of the call.
\<close>

definition initialize :: "filesystem \<Rightarrow> visa_client \<Rightarrow> (js_error + unit) \<times> visa_client \<times> event list" where
  "initialize fs c =
     (let cfg = config c in
      if initialized c then (Inr (), c, [])
      else if \<not> existsSync fs (certPath cfg) then
        (Inr (), c,
         [ExistsSync (certPath cfg),
          ConsoleWarn (warning_sign @ ''  Warning: Certificate file not found at '' @ certPath cfg),
          ConsoleWarn ''   Please add your Visa certificates to the certs/ directory.'',
          ConsoleWarn ''   API calls will fail until certificates are configured.''])
      else if \<not> existsSync fs (keyPath cfg) then
        (Inr (), c,
         [ExistsSync (certPath cfg), ExistsSync (keyPath cfg),
          ConsoleWarn (warning_sign @ ''  Warning: Key file not found at '' @ keyPath cfg)])
      else
        (let checks = [ExistsSync (certPath cfg), ExistsSync (keyPath cfg)] in
         case readFileSync fs (certPath cfg) of
           Inl e \<Rightarrow> (Inl e, c, checks @ [ReadFileSync (certPath cfg)])
         | Inr certData \<Rightarrow>
            (case readFileSync fs (keyPath cfg) of
               Inl e \<Rightarrow> (Inl e, c, checks @ [ReadFileSync (certPath cfg), ReadFileSync (keyPath cfg)])
             | Inr keyData \<Rightarrow>
                (let reads = checks @ [ReadFileSync (certPath cfg), ReadFileSync (keyPath cfg)] in
                 case load_ca fs (caPath cfg) of
                   (Inl e, t) \<Rightarrow> (Inl e, c, reads @ t)
                 | (Inr caData, t) \<Rightarrow>
                    (let httpsAgent = \<lparr> cert = certData, key = keyData, ca = caData,
                                        rejectUnauthorized = True \<rparr>;
                         inst = \<lparr> baseURL = baseUrl c,
                                  httpsAgent = httpsAgent,
                                  auth = (userId cfg, password cfg),
                                  headers = [(''Content-Type'', ''application/json''),
                                             (''Accept'', ''application/json'')] \<rparr>
                     in (Inr (),
                         c\<lparr> client := Some inst, initialized := True \<rparr>,
                         reads @ t @
                         [NewAgent httpsAgent, AxiosCreate inst,
                          ConsoleLog (check_mark @ '' Visa API client initialized ('' @
                                      environment_name (environment cfg) @ '')'')]))))))"

definition not_initialized_message :: string where
  "not_initialized_message =
     ''Visa API client not initialized. Please configure your certificates in the certs/ directory.''"

definition getClient :: "filesystem \<Rightarrow> visa_client \<Rightarrow> (js_error + axios_instance) \<times> visa_client \<times> event list" where
  "getClient fs c =
     (case initialize fs c of
        (Inl e, c', t) \<Rightarrow> (Inl e, c', t)
      | (Inr u, c', t) \<Rightarrow>
          (case client c' of
             None \<Rightarrow> (Inl (Error not_initialized_message), c', t)
           | Some inst \<Rightarrow> (Inr inst, c', t)))"

subsection \<open>The operations\<close>

text \<open>
  What an operation is run against: the file system at the time of the call, the remote
  endpoint (a request is answered with the decoded body, or rejected with an error
  message and, when the server answered, the body of its answer) and the clock
  (\<open>new Date().toISOString()\<close>).
\<close>

record world =
  files :: filesystem
  respond :: "axios_instance \<Rightarrow> http_verb \<Rightarrow> string \<Rightarrow> json option \<Rightarrow> (string \<times> json option) + json"
  now :: string

type_synonym 'a outcome = "(js_error + 'a) \<times> visa_client \<times> event list"

text \<open>
  Every method has the shape
  \<open>const response = await this.getClient().VERB(path, body); return response.data;\<close>
  which \<open>send\<close> models: \<open>getClient\<close> runs first and its exception leaves the method;
  otherwise one request goes out through the instance it returned. \<open>getClient\<close> is
  synchronous and the method touches the client no more once the request is out, so the
  methods of concurrent tool calls change the client one after the other, as a sequence
  of calls does.
\<close>

definition send :: "world \<Rightarrow> visa_client \<Rightarrow> http_verb \<Rightarrow> string \<Rightarrow> json option \<Rightarrow> json outcome" where
  "send w c verb path body =
     (case getClient (files w) c of
        (Inl e, c', t) \<Rightarrow> (Inl e, c', t)
      | (Inr inst, c', t) \<Rightarrow>
          ((case respond w inst verb path body of
              Inl (m, r) \<Rightarrow> Inl (AxiosError m r)
            | Inr data \<Rightarrow> Inr data),
           c', t @ [HttpRequest inst verb path body]))"

definition helloWorld :: "world \<Rightarrow> visa_client \<Rightarrow> json outcome" where
  "helloWorld w c = send w c GET ''/vdp/helloworld'' None"

definition getExchangeRate :: "host \<Rightarrow> world \<Rightarrow> visa_client \<Rightarrow> string \<Rightarrow> string \<Rightarrow> rat \<Rightarrow> json outcome" where
  "getExchangeRate h w c sourceCurrencyCode destinationCurrencyCode sourceAmount =
     send w c POST ''/forexrates/v2/foreignexchangerates''
       (Some (JObj [(''sourceCurrencyCode'', JStr sourceCurrencyCode),
                    (''destinationCurrencyCode'', JStr destinationCurrencyCode),
                    (''sourceAmount'', JStr (numToString h sourceAmount))]))"

datatype distance_unit = Km | Mi

fun distance_unit_name :: "distance_unit \<Rightarrow> string" where
  "distance_unit_name Km = ''km''"
| "distance_unit_name Mi = ''mi''"

text \<open>The default parameters \<open>distance = 5\<close> and \<open>distanceUnit = "km"\<close> apply to \<open>undefined\<close>.\<close>

definition findNearbyAtms ::
  "world \<Rightarrow> visa_client \<Rightarrow> rat \<Rightarrow> rat \<Rightarrow> rat option \<Rightarrow> distance_unit option \<Rightarrow> json outcome" where
  "findNearbyAtms w c latitude longitude distance distanceUnit =
     send w c POST ''/globalatmlocator/v1/localatms/atmLocator''
       (Some (JObj
         [(''wsRequestHeaderV2'',
             JObj [(''requestTs'', JStr (now w)), (''applicationId'', JStr ''VISA_MCP'')]),
          (''requestData'',
             JObj [(''location'',
                      JObj [(''geocodes'',
                               JObj [(''latitude'', JNum latitude), (''longitude'', JNum longitude)])]),
                   (''options'',
                      JObj [(''range'',
                               JObj [(''distance'', JNum (case distance of None \<Rightarrow> 5 | Some d \<Rightarrow> d)),
                                     (''distanceUnit'',
                                        JStr (distance_unit_name
                                               (case distanceUnit of None \<Rightarrow> Km | Some u \<Rightarrow> u)))]),
                            (''findFilters'', JArr []),
                            (''sort'',
                               JObj [(''primary'', JStr ''distance''), (''direction'', JStr ''asc'')])])])]))"

definition vsmSearch :: "world \<Rightarrow> visa_client \<Rightarrow> string \<Rightarrow> json outcome" where
  "vsmSearch w c pan = send w c POST ''/vsm/v1/search'' (Some (JObj [(''pan'', JStr pan)]))"

definition vsmMerchantDetails :: "world \<Rightarrow> visa_client \<Rightarrow> string \<Rightarrow> json outcome" where
  "vsmMerchantDetails w c transactionId =
     send w c POST ''/vsm/v1/merchantdetails'' (Some (JObj [(''transactionId'', JStr transactionId)]))"

definition vsmAddMerchant :: "world \<Rightarrow> visa_client \<Rightarrow> string \<Rightarrow> string \<Rightarrow> string option \<Rightarrow> json outcome" where
  "vsmAddMerchant w c pan merchantId reason =
     send w c POST ''/vsm/v1/addmerchant''
       (Some (JObj [(''pan'', JStr pan),
                    (''merchantId'', JStr merchantId),
                    (''reason'', JStr (str_or reason ''Subscription cancellation''))]))"

definition vsmCancel :: "world \<Rightarrow> visa_client \<Rightarrow> string \<Rightarrow> json outcome" where
  "vsmCancel w c stopId = send w c POST ''/vsm/v1/cancel'' (Some (JObj [(''stopId'', JStr stopId)]))"

definition vspsSearchInstructions :: "world \<Rightarrow> visa_client \<Rightarrow> string \<Rightarrow> json outcome" where
  "vspsSearchInstructions w c pan =
     send w c POST ''/vsps/v1/stopinstructions/search'' (Some (JObj [(''pan'', JStr pan)]))"

definition vspsSearchEligible :: "world \<Rightarrow> visa_client \<Rightarrow> string \<Rightarrow> rat option \<Rightarrow> json outcome" where
  "vspsSearchEligible w c pan days =
     send w c POST ''/vsps/v1/eligibletransactions/search''
       (Some (JObj [(''pan'', JStr pan),
                    (''searchPeriodDays'', JNum (case days of None \<Rightarrow> 90 | Some d \<Rightarrow> d))]))"

datatype level = Merchant | Mcc | Pan

fun level_name :: "level \<Rightarrow> string" where
  "level_name Merchant = ''merchant''"
| "level_name Mcc = ''mcc''"
| "level_name Pan = ''pan''"

text \<open>The payload of \<open>vspsAddStop\<close>: \<open>{ pan, level }\<close>, then at most one more property.\<close>

definition addStopPayload :: "string \<Rightarrow> level \<Rightarrow> string option \<Rightarrow> string option \<Rightarrow> json" where
  "addStopPayload pan lvl merchantId mcc =
     (let payload = [(''pan'', JStr pan), (''level'', JStr (level_name lvl))] in
      if lvl = Merchant \<and> str_truthy merchantId then
        JObj (AList.update ''merchantId'' (JStr (the merchantId)) payload)
      else if lvl = Mcc \<and> str_truthy mcc then
        JObj (AList.update ''mcc'' (JStr (the mcc)) payload)
      else JObj payload)"

definition vspsAddStop ::
  "world \<Rightarrow> visa_client \<Rightarrow> string \<Rightarrow> level \<Rightarrow> string option \<Rightarrow> string option \<Rightarrow> json outcome" where
  "vspsAddStop w c pan lvl merchantId mcc =
     send w c POST ''/vsps/v1/stopinstructions/add'' (Some (addStopPayload pan lvl merchantId mcc))"

definition vspsCancelStop :: "world \<Rightarrow> visa_client \<Rightarrow> string \<Rightarrow> json outcome" where
  "vspsCancelStop w c stopId =
     send w c POST ''/vsps/v1/stopinstructions/cancel'' (Some (JObj [(''stopId'', JStr stopId)]))"

text \<open>
  \<open>{ stopId, ...updates }\<close>: the properties of \<open>updates\<close> are assigned in their order, a
  property named \<open>stopId\<close> replacing the value of the first one in place.
\<close>

definition spread :: "(string \<times> json) list \<Rightarrow> (string \<times> json) list \<Rightarrow> (string \<times> json) list" where
  "spread obj updates = foldl (\<lambda>acc (k, v). AList.update k v acc) obj updates"

definition vspsUpdateStop :: "world \<Rightarrow> visa_client \<Rightarrow> string \<Rightarrow> (string \<times> json) list \<Rightarrow> json outcome" where
  "vspsUpdateStop w c stopId updates =
     send w c POST ''/vsps/v1/stopinstructions/update''
       (Some (JObj (spread [(''stopId'', JStr stopId)] updates)))"

definition vspsExtendStop :: "world \<Rightarrow> visa_client \<Rightarrow> string \<Rightarrow> string \<Rightarrow> json outcome" where
  "vspsExtendStop w c stopId newEndDate =
     send w c POST ''/vsps/v1/stopinstructions/extend''
       (Some (JObj [(''stopId'', JStr stopId), (''newEndDate'', JStr newEndDate)]))"

text \<open>The thirteen operations of the client, as one type, and the call of one of them.\<close>

datatype operation =
    HelloWorld
  | GetExchangeRate string string rat
  | FindNearbyAtms rat rat "rat option" "distance_unit option"
  | VsmSearch string
  | VsmMerchantDetails string
  | VsmAddMerchant string string "string option"
  | VsmCancel string
  | VspsSearchInstructions string
  | VspsSearchEligible string "rat option"
  | VspsAddStop string level "string option" "string option"
  | VspsCancelStop string
  | VspsUpdateStop string "(string \<times> json) list"
  | VspsExtendStop string string

fun perform :: "host \<Rightarrow> world \<Rightarrow> visa_client \<Rightarrow> operation \<Rightarrow> json outcome" where
  "perform h w c HelloWorld = helloWorld w c"
| "perform h w c (GetExchangeRate s d a) = getExchangeRate h w c s d a"
| "perform h w c (FindNearbyAtms la lo d u) = findNearbyAtms w c la lo d u"
| "perform h w c (VsmSearch pan) = vsmSearch w c pan"
| "perform h w c (VsmMerchantDetails tid) = vsmMerchantDetails w c tid"
| "perform h w c (VsmAddMerchant pan m r) = vsmAddMerchant w c pan m r"
| "perform h w c (VsmCancel sid) = vsmCancel w c sid"
| "perform h w c (VspsSearchInstructions pan) = vspsSearchInstructions w c pan"
| "perform h w c (VspsSearchEligible pan days) = vspsSearchEligible w c pan days"
| "perform h w c (VspsAddStop pan lvl m mcc) = vspsAddStop w c pan lvl m mcc"
| "perform h w c (VspsCancelStop sid) = vspsCancelStop w c sid"
| "perform h w c (VspsUpdateStop sid ups) = vspsUpdateStop w c sid ups"
| "perform h w c (VspsExtendStop sid d) = vspsExtendStop w c sid d"

text \<open>The verb, the path and the body of the request an operation makes.\<close>

fun verb_of :: "operation \<Rightarrow> http_verb" where
  "verb_of HelloWorld = GET"
| "verb_of _ = POST"

fun path_of :: "operation \<Rightarrow> string" where
  "path_of HelloWorld = ''/vdp/helloworld''"
| "path_of (GetExchangeRate s d a) = ''/forexrates/v2/foreignexchangerates''"
| "path_of (FindNearbyAtms la lo d u) = ''/globalatmlocator/v1/localatms/atmLocator''"
| "path_of (VsmSearch pan) = ''/vsm/v1/search''"
| "path_of (VsmMerchantDetails tid) = ''/vsm/v1/merchantdetails''"
| "path_of (VsmAddMerchant pan m r) = ''/vsm/v1/addmerchant''"
| "path_of (VsmCancel sid) = ''/vsm/v1/cancel''"
| "path_of (VspsSearchInstructions pan) = ''/vsps/v1/stopinstructions/search''"
| "path_of (VspsSearchEligible pan days) = ''/vsps/v1/eligibletransactions/search''"
| "path_of (VspsAddStop pan lvl m mcc) = ''/vsps/v1/stopinstructions/add''"
| "path_of (VspsCancelStop sid) = ''/vsps/v1/stopinstructions/cancel''"
| "path_of (VspsUpdateStop sid ups) = ''/vsps/v1/stopinstructions/update''"
| "path_of (VspsExtendStop sid d) = ''/vsps/v1/stopinstructions/extend''"

text \<open>A run of operations on one client, each against the world of its time.\<close>

fun run :: "host \<Rightarrow> visa_client \<Rightarrow> (world \<times> operation) list \<Rightarrow> visa_client \<times> event list" where
  "run h c [] = (c, [])"
| "run h c ((w, op) # rest) =
     (case perform h w c op of
        (r, c', t) \<Rightarrow> (case run h c' rest of (c'', t') \<Rightarrow> (c'', t @ t')))"

section \<open>The tools\<close>

text \<open>
  A tool returns \<open>{ content: [{ type: "text", text }] }\<close>: the list of its content items.
  There is no error flag: the envelope of a failure is the one whose text starts with
  \<open>Error: \<close>. The handler of a tool ends with such an envelope or, when its \<open>catch\<close>
  block itself throws, with that exception.
\<close>

datatype content_item = Text string

type_synonym envelope = "content_item list"

fun is_failure :: "js_error + envelope \<Rightarrow> bool" where
  "is_failure (Inr [Text t]) = (take 7 t = ''Error: '')"
| "is_failure r = False"

text \<open>
  \<open>formatResponse(data, error?)\<close>; the branch is taken on the truthiness of \<open>error\<close>, and
  the template literal of the first branch converts \<open>error\<close> to a string.
\<close>

definition formatResponse :: "host \<Rightarrow> json \<Rightarrow> json option \<Rightarrow> js_error + envelope" where
  "formatResponse h data error =
     (if truthy_opt error then
        (case toStr h (the error) of
           Inl e \<Rightarrow> Inl e
         | Inr s \<Rightarrow> Inr [Text (''Error: '' @ s)])
      else Inr [Text (jsonStringify h data)])"

text \<open>\<open>error.response?.data?.message\<close>\<close>

definition structured_message :: "js_error \<Rightarrow> json option" where
  "structured_message e = get_prop_opt (response_data e) ''message''"

text \<open>
  The handler of every \<open>catch\<close>:
  \<open>formatResponse(null, error.response?.data?.message || error.message)\<close>. An exception
  of \<open>formatResponse\<close> here leaves the tool's handler.
\<close>

definition on_error :: "host \<Rightarrow> js_error \<Rightarrow> js_error + envelope" where
  "on_error h e = formatResponse h JNull (Some (or_else (structured_message e) (JStr (message e))))"

type_synonym reply = "(js_error + envelope) \<times> visa_client \<times> event list"

text \<open>
  Eleven tools have the body
  \<open>try { const data = await visaClient.op(...); return formatResponse(data); }
    catch (error) { ... }\<close>.
\<close>

definition try_format :: "host \<Rightarrow> json outcome \<Rightarrow> reply" where
  "try_format h r =
     (case r of
        (Inl e, c', t) \<Rightarrow> (on_error h e, c', t)
      | (Inr data, c', t) \<Rightarrow>
          (case formatResponse h data None of
             Inl e \<Rightarrow> (on_error h e, c', t)
           | Inr env \<Rightarrow> (Inr env, c', t)))"

definition hello_world :: "host \<Rightarrow> world \<Rightarrow> visa_client \<Rightarrow> reply" where
  "hello_world h w c = try_format h (helloWorld w c)"

definition get_exchange_rate :: "host \<Rightarrow> world \<Rightarrow> visa_client \<Rightarrow> string \<Rightarrow> string \<Rightarrow> rat \<Rightarrow> reply" where
  "get_exchange_rate h w c sourceCurrency destinationCurrency sourceAmount =
     (case getExchangeRate h w c sourceCurrency destinationCurrency sourceAmount of
        (Inl e, c', t) \<Rightarrow> (on_error h e, c', t)
      | (Inr data, c', t) \<Rightarrow>
          (case get_prop data ''conversionRate'' of
             Inl e \<Rightarrow> (on_error h e, c', t)
           | Inr r \<Rightarrow>
              (case get_prop data ''destinationAmount'' of
                 Inl e \<Rightarrow> (on_error h e, c', t)
               | Inr d \<Rightarrow>
                  (let rate = or_else r (JStr ''N/A'');
                       converted = or_else d (JStr ''N/A'')
                   in case toStr h rate of
                        Inl e \<Rightarrow> (on_error h e, c', t)
                      | Inr rateText \<Rightarrow>
                         (case toStr h converted of
                            Inl e \<Rightarrow> (on_error h e, c', t)
                          | Inr convertedText \<Rightarrow>
                             (Inr [Text (''Exchange Rate: '' @ rateText @ ''\<newline>'' @
                                         numToString h sourceAmount @ '' '' @ sourceCurrency @ '' = '' @
                                         convertedText @ '' '' @ destinationCurrency @
                                         ''\<newline>\<newline>Full response:\<newline>'' @
                                         jsonStringify h data)],
                              c', t))))))"

text \<open>
  One line of the ATM summary: the callback of \<open>.map\<close>, with the index \<open>i\<close> of the
  entry. The template literal reads and converts its four values from left to right.
  Reading \<open>atm.atmName\<close> throws on a \<open>null\<close> entry; after it no read can throw, and a
  conversion throws on a value that is not printable.
\<close>

definition atm_line :: "host \<Rightarrow> nat \<Rightarrow> json \<Rightarrow> js_error + string" where
  "atm_line h i atm =
     (case get_prop atm ''atmName'' of
        Inl e \<Rightarrow> Inl e
      | Inr name \<Rightarrow>
     (case toStr h (or_else name (JStr ''ATM'')) of
        Inl e \<Rightarrow> Inl e
      | Inr nameText \<Rightarrow>
     (case get_prop atm ''address'' of
        Inl e \<Rightarrow> Inl e
      | Inr address \<Rightarrow>
     (case toStr h (or_else (get_prop_opt address ''street'') (JStr ''Unknown'')) of
        Inl e \<Rightarrow> Inl e
      | Inr streetText \<Rightarrow>
     (case toStr h (or_else (get_prop_opt address ''city'') (JStr [])) of
        Inl e \<Rightarrow> Inl e
      | Inr cityText \<Rightarrow>
     (case get_prop atm ''distance'' of
        Inl e \<Rightarrow> Inl e
      | Inr distance \<Rightarrow>
     (case toStr h (or_else distance (JStr ''?'')) of
        Inl e \<Rightarrow> Inl e
      | Inr distanceText \<Rightarrow>
          Inr (show_nat (i + 1) @ ''. '' @ nameText @ '' - '' @ streetText @ '', '' @
               cityText @ '' ('' @ distanceText @ '' km)''))))))))"

text \<open>
  The entries the callback makes a line of: those that are not \<open>null\<close> and whose four
  values shown are printable.
\<close>

definition listable :: "json \<Rightarrow> bool" where
  "listable atm =
     (atm \<noteq> JNull \<and>
      printable (or_else (get_prop_opt (Some atm) ''atmName'') (JStr ''ATM'')) \<and>
      printable (or_else (get_prop_opt (get_prop_opt (Some atm) ''address'') ''street'') (JStr ''Unknown'')) \<and>
      printable (or_else (get_prop_opt (get_prop_opt (Some atm) ''address'') ''city'') (JStr [])) \<and>
      printable (or_else (get_prop_opt (Some atm) ''distance'') (JStr ''?'')))"

text \<open>\<open>.map\<close> over the entries from index \<open>i\<close> on: the first exception ends it.\<close>

fun atm_lines :: "host \<Rightarrow> nat \<Rightarrow> json list \<Rightarrow> js_error + string list" where
  "atm_lines h i [] = Inr []"
| "atm_lines h i (atm # rest) =
     (case atm_line h i atm of
        Inl e \<Rightarrow> Inl e
      | Inr l \<Rightarrow> (case atm_lines h (Suc i) rest of Inl e \<Rightarrow> Inl e | Inr ls \<Rightarrow> Inr (l # ls)))"

text \<open>
  \<open>atms.slice(0, 10).map(...).join("\n")\<close> on the value of
  \<open>data.responseData?.atmList || []\<close>: an array has \<open>slice\<close> and \<open>map\<close>; a string has
  \<open>slice\<close> but its result has no \<open>map\<close>; any other truthy value has no \<open>slice\<close>.
\<close>

fun atm_summary :: "host \<Rightarrow> json \<Rightarrow> js_error + string" where
  "atm_summary h (JArr xs) =
     (case atm_lines h 0 (take 10 xs) of Inl e \<Rightarrow> Inl e | Inr ls \<Rightarrow> Inr (join ''\<newline>'' ls))"
| "atm_summary h (JStr s) = Inl (TypeError ''atms.slice(...).map is not a function'')"
| "atm_summary h v = Inl (TypeError ''atms.slice is not a function'')"

text \<open>\<open>atms.length\<close>, read after the summary was built, so of an array.\<close>

fun atm_count :: "json \<Rightarrow> nat" where
  "atm_count (JArr xs) = length xs"
| "atm_count v = 0"

definition find_nearby_atms :: "host \<Rightarrow> world \<Rightarrow> visa_client \<Rightarrow> rat \<Rightarrow> rat \<Rightarrow> rat option \<Rightarrow> reply" where
  "find_nearby_atms h w c latitude longitude distance =
     (case findNearbyAtms w c latitude longitude (Some (num_or distance 5)) None of
        (Inl e, c', t) \<Rightarrow> (on_error h e, c', t)
      | (Inr data, c', t) \<Rightarrow>
          (case get_prop data ''responseData'' of
             Inl e \<Rightarrow> (on_error h e, c', t)
           | Inr rd \<Rightarrow>
              (let atms = or_else (get_prop_opt rd ''atmList'') (JArr []) in
               case atm_summary h atms of
                 Inl e \<Rightarrow> (on_error h e, c', t)
               | Inr summary \<Rightarrow>
                  (Inr [Text (''Found '' @ show_nat (atm_count atms) @ '' ATMs nearby:\<newline>\<newline>'' @
                              (if summary \<noteq> [] then summary else ''No ATMs found''))],
                   c', t))))"

definition vsm_search :: "host \<Rightarrow> world \<Rightarrow> visa_client \<Rightarrow> string \<Rightarrow> reply" where
  "vsm_search h w c pan = try_format h (vsmSearch w c pan)"

definition vsm_merchant_details :: "host \<Rightarrow> world \<Rightarrow> visa_client \<Rightarrow> string \<Rightarrow> reply" where
  "vsm_merchant_details h w c transactionId = try_format h (vsmMerchantDetails w c transactionId)"

definition vsm_add_merchant :: "host \<Rightarrow> world \<Rightarrow> visa_client \<Rightarrow> string \<Rightarrow> string \<Rightarrow> string option \<Rightarrow> reply" where
  "vsm_add_merchant h w c pan merchantId reason = try_format h (vsmAddMerchant w c pan merchantId reason)"

definition vsm_cancel :: "host \<Rightarrow> world \<Rightarrow> visa_client \<Rightarrow> string \<Rightarrow> reply" where
  "vsm_cancel h w c stopId = try_format h (vsmCancel w c stopId)"

definition vsps_search_instructions :: "host \<Rightarrow> world \<Rightarrow> visa_client \<Rightarrow> string \<Rightarrow> reply" where
  "vsps_search_instructions h w c pan = try_format h (vspsSearchInstructions w c pan)"

definition vsps_search_eligible :: "host \<Rightarrow> world \<Rightarrow> visa_client \<Rightarrow> string \<Rightarrow> rat option \<Rightarrow> reply" where
  "vsps_search_eligible h w c pan days =
     try_format h (vspsSearchEligible w c pan (Some (num_or days 90)))"

definition vsps_add_stop ::
  "host \<Rightarrow> world \<Rightarrow> visa_client \<Rightarrow> string \<Rightarrow> level \<Rightarrow> string option \<Rightarrow> string option \<Rightarrow> reply" where
  "vsps_add_stop h w c pan lvl merchantId mcc = try_format h (vspsAddStop w c pan lvl merchantId mcc)"

definition vsps_cancel_stop :: "host \<Rightarrow> world \<Rightarrow> visa_client \<Rightarrow> string \<Rightarrow> reply" where
  "vsps_cancel_stop h w c stopId = try_format h (vspsCancelStop w c stopId)"

text \<open>The \<open>updates\<close> object of \<open>vsps_update_stop\<close>, filled by two \<open>if\<close>s.\<close>

definition stop_updates :: "string option \<Rightarrow> string option \<Rightarrow> (string \<times> json) list" where
  "stop_updates merchantId notes =
     (let updates = [];
          updates = (if str_truthy merchantId
                     then AList.update ''merchantId'' (JStr (the merchantId)) updates else updates);
          updates = (if str_truthy notes
                     then AList.update ''notes'' (JStr (the notes)) updates else updates)
      in updates)"

definition vsps_update_stop ::
  "host \<Rightarrow> world \<Rightarrow> visa_client \<Rightarrow> string \<Rightarrow> string option \<Rightarrow> string option \<Rightarrow> reply" where
  "vsps_update_stop h w c stopId merchantId notes =
     try_format h (vspsUpdateStop w c stopId (stop_updates merchantId notes))"

definition vsps_extend_stop :: "host \<Rightarrow> world \<Rightarrow> visa_client \<Rightarrow> string \<Rightarrow> string \<Rightarrow> reply" where
  "vsps_extend_stop h w c stopId newEndDate = try_format h (vspsExtendStop w c stopId newEndDate)"

text \<open>
  The thirteen registered tools with their validated arguments, the call of one of them,
  and the client operation a tool delegates to.
\<close>

datatype tool_call =
    Hello_world
  | Get_exchange_rate string string rat
  | Find_nearby_atms rat rat "rat option"
  | Vsm_search string
  | Vsm_merchant_details string
  | Vsm_add_merchant string string "string option"
  | Vsm_cancel string
  | Vsps_search_instructions string
  | Vsps_search_eligible string "rat option"
  | Vsps_add_stop string level "string option" "string option"
  | Vsps_cancel_stop string
  | Vsps_update_stop string "string option" "string option"
  | Vsps_extend_stop string string

fun invoke :: "host \<Rightarrow> world \<Rightarrow> visa_client \<Rightarrow> tool_call \<Rightarrow> reply" where
  "invoke h w c Hello_world = hello_world h w c"
| "invoke h w c (Get_exchange_rate s d a) = get_exchange_rate h w c s d a"
| "invoke h w c (Find_nearby_atms la lo d) = find_nearby_atms h w c la lo d"
| "invoke h w c (Vsm_search pan) = vsm_search h w c pan"
| "invoke h w c (Vsm_merchant_details tid) = vsm_merchant_details h w c tid"
| "invoke h w c (Vsm_add_merchant pan m r) = vsm_add_merchant h w c pan m r"
| "invoke h w c (Vsm_cancel sid) = vsm_cancel h w c sid"
| "invoke h w c (Vsps_search_instructions pan) = vsps_search_instructions h w c pan"
| "invoke h w c (Vsps_search_eligible pan days) = vsps_search_eligible h w c pan days"
| "invoke h w c (Vsps_add_stop pan lvl m mcc) = vsps_add_stop h w c pan lvl m mcc"
| "invoke h w c (Vsps_cancel_stop sid) = vsps_cancel_stop h w c sid"
| "invoke h w c (Vsps_update_stop sid m n) = vsps_update_stop h w c sid m n"
| "invoke h w c (Vsps_extend_stop sid d) = vsps_extend_stop h w c sid d"

fun delegate :: "tool_call \<Rightarrow> operation" where
  "delegate Hello_world = HelloWorld"
| "delegate (Get_exchange_rate s d a) = GetExchangeRate s d a"
| "delegate (Find_nearby_atms la lo d) = FindNearbyAtms la lo (Some (num_or d 5)) None"
| "delegate (Vsm_search pan) = VsmSearch pan"
| "delegate (Vsm_merchant_details tid) = VsmMerchantDetails tid"
| "delegate (Vsm_add_merchant pan m r) = VsmAddMerchant pan m r"
| "delegate (Vsm_cancel sid) = VsmCancel sid"
| "delegate (Vsps_search_instructions pan) = VspsSearchInstructions pan"
| "delegate (Vsps_search_eligible pan days) = VspsSearchEligible pan (Some (num_or days 90))"
| "delegate (Vsps_add_stop pan lvl m mcc) = VspsAddStop pan lvl m mcc"
| "delegate (Vsps_cancel_stop sid) = VspsCancelStop sid"
| "delegate (Vsps_update_stop sid m n) = VspsUpdateStop sid (stop_updates m n)"
| "delegate (Vsps_extend_stop sid d) = VspsExtendStop sid d"

section \<open>A concrete deployment\<close>

text \<open>
  The configuration the server builds when no environment variable is set apart from the
  credentials, two file systems (one without the certificates, one with them), the
  instance that initialization builds on the second, and a world whose endpoint gives one
  fixed answer. The sample host renders an integer-valued number in decimal; its
  \<open>JSON.stringify\<close> is a fixed text, which no example depends on.
\<close>

definition sample_config :: visa_client_config where
  "sample_config =
     \<lparr> userId = ''user'', password = ''secret'',
       certPath = ''./certs/cert.pem'', keyPath = ''./certs/key.pem'',
       caPath = None, environment = Sandbox \<rparr>"

definition sample_host :: host where
  "sample_host =
     \<lparr> numToString = (\<lambda>r. (if r < 0 then ''-'' else []) @ show_nat (nat \<lfloor>\<bar>r\<bar>\<rfloor>)),
       jsonStringify = (\<lambda>d. ''{}'') \<rparr>"

definition no_files :: filesystem where
  "no_files = (\<lambda>p. None)"

definition sample_files :: filesystem where
  "sample_files =
     (\<lambda>p. if p = ''./certs/cert.pem'' then Some (File ''CERT'')
          else if p = ''./certs/key.pem'' then Some (File ''KEY'')
          else None)"

definition sample_agent :: https_agent where
  "sample_agent = \<lparr> cert = ''CERT'', key = ''KEY'', ca = None, rejectUnauthorized = True \<rparr>"

definition sample_instance :: axios_instance where
  "sample_instance =
     \<lparr> baseURL = ''https://sandbox.api.visa.com'',
       httpsAgent = sample_agent,
       auth = (''user'', ''secret''),
       headers = [(''Content-Type'', ''application/json''), (''Accept'', ''application/json'')] \<rparr>"

definition sample_ready :: visa_client where
  "sample_ready =
     \<lparr> client = Some sample_instance, config = sample_config,
       baseUrl = ''https://sandbox.api.visa.com'', initialized = True \<rparr>"

definition sample_world :: "filesystem \<Rightarrow> (string \<times> json option) + json \<Rightarrow> world" where
  "sample_world fs answer =
     \<lparr> files = fs, respond = (\<lambda>inst verb path body. answer), now = ''2024-01-01T00:00:00.000Z'' \<rparr>"

text \<open>
  An answer of the ATM locator with eleven entries: one with every property the summary
  reads, nine empty objects, and a \<open>null\<close> in the eleventh place.
\<close>

definition sample_atms :: "json list" where
  "sample_atms =
     [JObj [(''atmName'', JStr ''Louvre''),
            (''address'', JObj [(''street'', JStr ''Rue de Rivoli''), (''city'', JStr ''Paris'')]),
            (''distance'', JNum 2)],
      JObj [], JObj [], JObj [], JObj [], JObj [], JObj [], JObj [], JObj [], JObj [], JNull]"

definition sample_atm_response :: json where
  "sample_atm_response = JObj [(''responseData'', JObj [(''atmList'', JArr sample_atms)])]"

section \<open>Initialization and the requests of an operation\<close>

lemma initialize_ready: "initialized c \<Longrightarrow> initialize fs c = (Inr (), c, [])"
  by (simp add: initialize_def)

lemma getClient_ready:
  "initialized c \<Longrightarrow> client c = Some inst \<Longrightarrow> getClient fs c = (Inr inst, c, [])"
  by (simp add: getClient_def initialize_ready)

lemma send_ready:
  "initialized c \<Longrightarrow> client c = Some inst \<Longrightarrow>
   send w c v p b =
     ((case respond w inst v p b of Inl (m, r) \<Rightarrow> Inl (AxiosError m r) | Inr d \<Rightarrow> Inr d),
      c, [HttpRequest inst v p b])"
  by (simp add: send_def getClient_ready)

lemma send_failed:
  "getClient (files w) c = (Inl e, c', t) \<Longrightarrow> send w c v p b = (Inl e, c', t)"
  by (simp add: send_def)

lemma send_sent:
  "getClient (files w) c = (Inr inst, c', t) \<Longrightarrow>
   send w c v p b =
     ((case respond w inst v p b of Inl (m, r) \<Rightarrow> Inl (AxiosError m r) | Inr d \<Rightarrow> Inr d),
      c', t @ [HttpRequest inst v p b])"
  by (simp add: send_def)

text \<open>Every operation is one \<open>send\<close> with its own verb and path.\<close>

lemma perform_send: "\<exists>b. perform h w c op = send w c (verb_of op) (path_of op) b"
  by (cases op;
      simp only: perform.simps verb_of.simps path_of.simps helloWorld_def getExchangeRate_def
        findNearbyAtms_def vsmSearch_def vsmMerchantDetails_def vsmAddMerchant_def vsmCancel_def
        vspsSearchInstructions_def vspsSearchEligible_def vspsAddStop_def vspsCancelStop_def
        vspsUpdateStop_def vspsExtendStop_def;
      rule exI; rule refl)

lemma initialize_missing:
  assumes "\<not> initialized c"
    and "\<not> existsSync fs (certPath (config c)) \<or> \<not> existsSync fs (keyPath (config c))"
  shows "fst (initialize fs c) = Inr ()"
    and "fst (snd (initialize fs c)) = c"
    and "filter is_request (snd (snd (initialize fs c))) = []"
    and "take 1 (snd (snd (initialize fs c))) = [ExistsSync (certPath (config c))]"
  using assms by (auto simp: initialize_def Let_def)

lemma getClient_missing:
  assumes "client c = None"
    and "\<not> existsSync fs (certPath (config c)) \<or> \<not> existsSync fs (keyPath (config c))"
  shows "fst (getClient fs c) = Inl (Error not_initialized_message)"
    and "fst (snd (getClient fs c)) = c"
    and "filter is_request (snd (snd (getClient fs c))) = []"
  using assms by (auto simp: getClient_def initialize_def Let_def)

lemma sample_initialization:
  "getClient sample_files (constructor sample_config) =
     (Inr sample_instance, sample_ready,
      [ExistsSync ''./certs/cert.pem'', ExistsSync ''./certs/key.pem'',
       ReadFileSync ''./certs/cert.pem'', ReadFileSync ''./certs/key.pem'',
       NewAgent sample_agent, AxiosCreate sample_instance,
       ConsoleLog (check_mark @ '' Visa API client initialized (sandbox)'')])"
  by (simp add: getClient_def initialize_def constructor_def sample_config_def sample_files_def
      sample_instance_def sample_agent_def sample_ready_def existsSync_def readFileSync_def
      load_ca_def Let_def)

section \<open>Operations on a client without credentials\<close>

text \<open>
  Claim C1. Whatever the operation, when the client has no transport handle and the
  certificate file or the key file is missing, the operation throws the error whose
  message says that the client is not initialized and that the certificates must be
  configured, the client is left as it was, and no HTTP request is made.
\<close>

theorem unready_client_fails_without_request:
  assumes "client c = None"
    and "\<not> existsSync (files w) (certPath (config c)) \<or> \<not> existsSync (files w) (keyPath (config c))"
  shows "fst (perform h w c op) = Inl (Error not_initialized_message) \<and>
         fst (snd (perform h w c op)) = c \<and>
         filter is_request (snd (snd (perform h w c op))) = []"
proof -
  obtain b where p: "perform h w c op = send w c (verb_of op) (path_of op) b"
    using perform_send by blast
  obtain c' t where g: "getClient (files w) c = (Inl (Error not_initialized_message), c', t)"
    using getClient_missing(1) [OF assms] by (metis fst_conv surj_pair)
  have "c' = c" "filter is_request t = []"
    using getClient_missing(2,3) [OF assms] g by simp_all
  then show ?thesis
    using p send_failed [OF g] by simp
qed

theorem unready_client_fails_without_request_witness:
  "client (constructor sample_config) = None \<and>
   \<not> existsSync (files (sample_world no_files (Inr JNull))) (certPath (config (constructor sample_config))) \<and>
   fst (perform sample_host (sample_world no_files (Inr JNull)) (constructor sample_config)
          (VsmSearch ''4111111111111111'')) =
     Inl (Error ''Visa API client not initialized. Please configure your certificates in the certs/ directory.'') \<and>
   fst (snd (perform sample_host (sample_world no_files (Inr JNull)) (constructor sample_config)
          (VsmSearch ''4111111111111111''))) = constructor sample_config \<and>
   filter is_request (snd (snd (perform sample_host (sample_world no_files (Inr JNull))
          (constructor sample_config) (VsmSearch ''4111111111111111'')))) = []"
  using unready_client_fails_without_request
    [of "constructor sample_config" "sample_world no_files (Inr JNull)" sample_host
        "VsmSearch ''4111111111111111''"]
  by (simp add: constructor_def sample_config_def sample_world_def no_files_def existsSync_def
      not_initialized_message_def)

section \<open>The effects of initialization\<close>

lemma load_ca_probes: "list_all is_probe (snd (load_ca fs cap))"
  by (simp add: load_ca_def split: option.splits sum.splits)

lemma load_ca_value:
  "load_ca fs cap = (Inr v, t) \<Longrightarrow>
   (case cap of
      None \<Rightarrow> v = None
    | Some p \<Rightarrow> if p \<noteq> [] \<and> existsSync fs p then v \<noteq> None \<and> readFileSync fs p = Inr (the v)
               else v = None)"
  by (auto simp: load_ca_def split: option.splits sum.splits if_splits)

text \<open>The outcomes of initialize on a client that is not initialized\<close>

lemma initialize_outcome:
  assumes "\<not> initialized c" and "initialize fs c = (r, c', t)"
  shows "(c' = c \<and> list_all (\<lambda>e. is_probe e \<or> (\<exists>s. e = ConsoleWarn s)) t) \<or>
         (\<exists>certData keyData caData t0 agent inst l.
            readFileSync fs (certPath (config c)) = Inr certData \<and>
            readFileSync fs (keyPath (config c)) = Inr keyData \<and>
            load_ca fs (caPath (config c)) = (Inr caData, t0) \<and>
            agent = \<lparr> cert = certData, key = keyData, ca = caData, rejectUnauthorized = True \<rparr> \<and>
            inst = \<lparr> baseURL = baseUrl c, httpsAgent = agent,
                     auth = (userId (config c), password (config c)),
                     headers = [(''Content-Type'', ''application/json''), (''Accept'', ''application/json'')] \<rparr> \<and>
            r = Inr () \<and> c' = c\<lparr> client := Some inst, initialized := True \<rparr> \<and>
            t = [ExistsSync (certPath (config c)), ExistsSync (keyPath (config c)),
                 ReadFileSync (certPath (config c)), ReadFileSync (keyPath (config c))] @ t0 @
                [NewAgent agent, AxiosCreate inst, ConsoleLog l])"
  using assms load_ca_probes [of fs "caPath (config c)"]
  apply (simp add: initialize_def Let_def split: if_splits sum.splits prod.splits)
  apply (auto simp: list_all_iff)
  done


lemma getClient_initialize:
  "snd (getClient fs c) = snd (initialize fs c)"
  by (cases "initialize fs c" rule: prod_cases3)
     (auto simp: getClient_def split: sum.splits option.splits)

lemma load_ca_no_request: "load_ca fs cap = (r, t) \<Longrightarrow> filter is_request t = []"
  by (auto simp: load_ca_def split: option.splits sum.splits if_splits)

lemma initialize_no_request: "filter is_request (snd (snd (initialize fs c))) = []"
  by (auto simp: initialize_def Let_def load_ca_no_request split: sum.splits prod.splits)

lemma initialize_first_check:
  assumes "\<not> initialized c"
  shows "take 1 (snd (snd (initialize fs c))) = [ExistsSync (certPath (config c))]"
    and "existsSync fs (certPath (config c)) \<Longrightarrow>
         take 2 (snd (snd (initialize fs c))) =
           [ExistsSync (certPath (config c)), ExistsSync (keyPath (config c))]"
  using assms
  by (auto simp: initialize_def Let_def split: sum.splits prod.splits)

lemma perform_trace:
  "\<exists>t'. snd (snd (perform h w c op)) = snd (snd (initialize (files w) c)) @ t' \<and>
        list_all is_request t' \<and>
        fst (snd (perform h w c op)) = fst (snd (initialize (files w) c))"
proof -
  obtain b where p: "perform h w c op = send w c (verb_of op) (path_of op) b"
    using perform_send by blast
  obtain r c' t where g: "getClient (files w) c = (r, c', t)"
    using prod_cases3 by blast
  have "snd (initialize (files w) c) = snd (getClient (files w) c)"
    by (simp add: getClient_initialize)
  then have "snd (initialize (files w) c) = (c', t)"
    by (simp add: g)
  then show ?thesis
    using p g by (cases r) (simp_all add: send_def)
qed

section \<open>A failed initialization\<close>

text \<open>
  Claim C2. When \<open>initialize\<close> stops because the certificate file or the key file is
  absent, it returns normally and the client is exactly as before: no handle, the flag
  false. Nothing records the failure: every later operation starts by checking the
  certificate path again (and the key path when the certificate is there), and as soon as
  both files can be read a later call builds the handle and sets the flag.
\<close>

theorem failed_initialization_is_retried:
  assumes "client c = None" and "\<not> initialized c"
    and "\<not> existsSync fs (certPath (config c)) \<or> \<not> existsSync fs (keyPath (config c))"
  shows "fst (initialize fs c) = Inr () \<and>
         fst (snd (initialize fs c)) = c \<and>
         client (fst (snd (initialize fs c))) = None \<and>
         \<not> initialized (fst (snd (initialize fs c))) \<and>
         (\<forall>h w op. take 1 (snd (snd (perform h w (fst (snd (initialize fs c))) op))) =
                     [ExistsSync (certPath (config c))]) \<and>
         (\<forall>h w op. existsSync (files w) (certPath (config c)) \<longrightarrow>
                   take 2 (snd (snd (perform h w (fst (snd (initialize fs c))) op))) =
                     [ExistsSync (certPath (config c)), ExistsSync (keyPath (config c))]) \<and>
         (\<forall>fs' certData keyData caData.
            fs' (certPath (config c)) = Some (File certData) \<and>
            fs' (keyPath (config c)) = Some (File keyData) \<and>
            fst (load_ca fs' (caPath (config c))) = Inr caData \<longrightarrow>
            fst (getClient fs' (fst (snd (initialize fs c)))) =
              Inr \<lparr> baseURL = baseUrl c,
                    httpsAgent = \<lparr> cert = certData, key = keyData, ca = caData,
                                   rejectUnauthorized = True \<rparr>,
                    auth = (userId (config c), password (config c)),
                    headers = [(''Content-Type'', ''application/json''),
                               (''Accept'', ''application/json'')] \<rparr> \<and>
            initialized (fst (snd (getClient fs' (fst (snd (initialize fs c)))))))"
proof -
  have same: "fst (snd (initialize fs c)) = c"
    using initialize_missing(2) [OF assms(2,3)] .
  have first: "take 1 (snd (snd (perform h w c op))) = [ExistsSync (certPath (config c))]" for h w op
  proof -
    obtain t' where "snd (snd (perform h w c op)) = snd (snd (initialize (files w) c)) @ t'"
      using perform_trace by blast
    moreover obtain t where "snd (snd (initialize (files w) c)) = ExistsSync (certPath (config c)) # t"
      using initialize_first_check(1) [OF assms(2), of "files w"]
      by (cases "snd (snd (initialize (files w) c))") simp_all
    ultimately show ?thesis by simp
  qed
  have second: "take 2 (snd (snd (perform h w c op))) =
      [ExistsSync (certPath (config c)), ExistsSync (keyPath (config c))]"
    if "existsSync (files w) (certPath (config c))" for h w op
  proof -
    obtain t' where "snd (snd (perform h w c op)) = snd (snd (initialize (files w) c)) @ t'"
      using perform_trace by blast
    moreover have "take 2 (snd (snd (initialize (files w) c))) =
        [ExistsSync (certPath (config c)), ExistsSync (keyPath (config c))]"
      using initialize_first_check(2) [OF assms(2) that] .
    then obtain t where "snd (snd (initialize (files w) c)) =
        ExistsSync (certPath (config c)) # ExistsSync (keyPath (config c)) # t"
      by (cases "snd (snd (initialize (files w) c))"; cases "tl (snd (snd (initialize (files w) c)))")
         (simp_all add: numeral_2_eq_2)
    ultimately show ?thesis by (simp add: numeral_2_eq_2)
  qed
  have retry: "fst (getClient fs' c) =
      Inr \<lparr> baseURL = baseUrl c,
            httpsAgent = \<lparr> cert = certData, key = keyData, ca = caData, rejectUnauthorized = True \<rparr>,
            auth = (userId (config c), password (config c)),
            headers = [(''Content-Type'', ''application/json''), (''Accept'', ''application/json'')] \<rparr> \<and>
      initialized (fst (snd (getClient fs' c)))"
    if "fs' (certPath (config c)) = Some (File certData)"
      and "fs' (keyPath (config c)) = Some (File keyData)"
      and "fst (load_ca fs' (caPath (config c))) = Inr caData" for fs' certData keyData caData
    using that assms(2)
    by (cases "load_ca fs' (caPath (config c))")
       (simp add: getClient_def initialize_def Let_def existsSync_def readFileSync_def)
  show ?thesis
    using initialize_missing(1) [OF assms(2,3)] same assms(1,2) first second retry
    by simp
qed


theorem failed_initialization_is_retried_witness:
  "client (constructor sample_config) = None \<and>
   \<not> initialized (constructor sample_config) \<and>
   \<not> existsSync no_files (certPath (config (constructor sample_config))) \<and>
   fst (initialize no_files (constructor sample_config)) = Inr () \<and>
   fst (snd (initialize no_files (constructor sample_config))) = constructor sample_config \<and>
   take 1 (snd (snd (perform sample_host (sample_world no_files (Inr JNull))
                       (fst (snd (initialize no_files (constructor sample_config)))) HelloWorld))) =
     [ExistsSync ''./certs/cert.pem''] \<and>
   take 2 (snd (snd (perform sample_host (sample_world sample_files (Inr JNull))
                       (fst (snd (initialize no_files (constructor sample_config)))) HelloWorld))) =
     [ExistsSync ''./certs/cert.pem'', ExistsSync ''./certs/key.pem''] \<and>
   fst (getClient sample_files (fst (snd (initialize no_files (constructor sample_config))))) =
     Inr sample_instance \<and>
   initialized (fst (snd (getClient sample_files
                            (fst (snd (initialize no_files (constructor sample_config)))))))"
proof -
  have h1: "client (constructor sample_config) = None"
    and h2: "\<not> initialized (constructor sample_config)"
    by (simp_all add: constructor_def)
  have h3: "\<not> existsSync no_files (certPath (config (constructor sample_config)))"
    by (simp add: existsSync_def no_files_def)
  then have h3': "\<not> existsSync no_files (certPath (config (constructor sample_config))) \<or>
      \<not> existsSync no_files (keyPath (config (constructor sample_config)))"
    by simp
  have paths: "certPath (config (constructor sample_config)) = ''./certs/cert.pem''"
    "keyPath (config (constructor sample_config)) = ''./certs/key.pem''"
    by (simp_all add: constructor_def sample_config_def)
  have ex: "existsSync (files (sample_world sample_files (Inr JNull))) ''./certs/cert.pem''"
    by (simp add: existsSync_def sample_world_def sample_files_def)
  have rd: "sample_files ''./certs/cert.pem'' = Some (File ''CERT'')"
    "sample_files ''./certs/key.pem'' = Some (File ''KEY'')"
    "fst (load_ca sample_files (caPath (config (constructor sample_config)))) = Inr None"
    by (simp_all add: sample_files_def load_ca_def constructor_def sample_config_def)
  have inst: "sample_instance =
      \<lparr> baseURL = baseUrl (constructor sample_config),
        httpsAgent = \<lparr> cert = ''CERT'', key = ''KEY'', ca = None, rejectUnauthorized = True \<rparr>,
        auth = (userId (config (constructor sample_config)),
                password (config (constructor sample_config))),
        headers = [(''Content-Type'', ''application/json''), (''Accept'', ''application/json'')] \<rparr>"
    by (simp add: sample_instance_def sample_agent_def constructor_def sample_config_def)
  note t = failed_initialization_is_retried [OF h1 h2 h3', unfolded paths]
  have a: "fst (initialize no_files (constructor sample_config)) = Inr ()"
    and b: "fst (snd (initialize no_files (constructor sample_config))) = constructor sample_config"
    using t by blast+
  have c1: "take 1 (snd (snd (perform sample_host (sample_world no_files (Inr JNull))
                       (fst (snd (initialize no_files (constructor sample_config)))) HelloWorld))) =
     [ExistsSync ''./certs/cert.pem'']"
    using t by blast
  have c2: "take 2 (snd (snd (perform sample_host (sample_world sample_files (Inr JNull))
                       (fst (snd (initialize no_files (constructor sample_config)))) HelloWorld))) =
     [ExistsSync ''./certs/cert.pem'', ExistsSync ''./certs/key.pem'']"
    using t ex by blast
  have c3: "fst (getClient sample_files (fst (snd (initialize no_files (constructor sample_config))))) =
     Inr sample_instance \<and>
   initialized (fst (snd (getClient sample_files
                            (fst (snd (initialize no_files (constructor sample_config)))))))"
    unfolding inst using t rd [unfolded paths] by blast
  show ?thesis
    using h1 h2 h3 a b c1 c2 c3 by blast
qed

section \<open>The handle of an initialized client\<close>

lemma probes_no_create: "list_all is_probe t \<Longrightarrow> filter is_create t = []"
  by (induction t) (auto elim: is_probe.elims)

lemma initialize_success:
  assumes "\<not> initialized c0" and "initialize fs0 c0 = (r, c, t0)" and "initialized c"
  shows "r = Inr () \<and> client c \<noteq> None \<and> filter is_create t0 = [AxiosCreate (the (client c))]"
proof -
  from initialize_outcome [OF assms(1,2)] assms(1,3)
  obtain certData keyData caData t1 agent inst l where
    ca: "load_ca fs0 (caPath (config c0)) = (Inr caData, t1)" and
    r: "r = Inr ()" and c: "c = c0\<lparr> client := Some inst, initialized := True \<rparr>" and
    t: "t0 = [ExistsSync (certPath (config c0)), ExistsSync (keyPath (config c0)),
              ReadFileSync (certPath (config c0)), ReadFileSync (keyPath (config c0))] @ t1 @
             [NewAgent agent, AxiosCreate inst, ConsoleLog l]"
    by auto
  have "filter is_create t1 = []"
    using load_ca_probes [of fs0 "caPath (config c0)"] ca by (simp add: probes_no_create)
  then show ?thesis using r c t by simp
qed

lemma run_ready:
  assumes "initialized c" and "client c = Some inst"
  shows "fst (run h c ops) = c \<and> list_all (uses inst) (snd (run h c ops)) \<and>
         length (snd (run h c ops)) = length ops"
proof (induction ops)
  case Nil
  show ?case by simp
next
  case (Cons wo rest)
  obtain w op where wo: "wo = (w, op)" by (cases wo)
  obtain b where "perform h w c op = send w c (verb_of op) (path_of op) b"
    using perform_send by blast
  then obtain r where "perform h w c op = (r, c, [HttpRequest inst (verb_of op) (path_of op) b])"
    using send_ready [OF assms] by simp
  then show ?case
    using Cons.IH wo by (cases "run h c rest") simp
qed

text \<open>
  Claim C3. Let \<open>initialize\<close> have succeeded: it ran on a client that was not initialized
  and left the flag set. Then it built exactly one instance, which is the handle of the
  client. From then on \<open>initialize\<close> returns at once, without any effect and whatever the
  file system holds, \<open>getClient\<close> returns that handle, and in any run of operations the
  client stays the same and every effect is an HTTP request through that handle, one per
  operation: no agent or instance is built again and no file is read again.
\<close>

theorem initialized_client_reuses_its_handle:
  assumes "\<not> initialized c0" and "initialize fs0 c0 = (r, c, t0)" and "initialized c"
  shows "r = Inr () \<and> client c \<noteq> None \<and>
         filter is_create t0 = [AxiosCreate (the (client c))] \<and>
         (\<forall>fs. initialize fs c = (Inr (), c, [])) \<and>
         (\<forall>fs. getClient fs c = (Inr (the (client c)), c, [])) \<and>
         (\<forall>h ops. fst (run h c ops) = c \<and>
                   list_all (uses (the (client c))) (snd (run h c ops)) \<and>
                   length (snd (run h c ops)) = length ops)"
proof -
  have s: "r = Inr () \<and> client c \<noteq> None \<and> filter is_create t0 = [AxiosCreate (the (client c))]"
    using initialize_success [OF assms] .
  then have h: "client c = Some (the (client c))" by simp
  show ?thesis
    using s initialize_ready [OF assms(3)] getClient_ready [OF assms(3) h]
      run_ready [OF assms(3) h]
    by simp
qed

theorem initialized_client_reuses_its_handle_witness:
  "\<not> initialized (constructor sample_config) \<and>
   fst (initialize sample_files (constructor sample_config)) = Inr () \<and>
   fst (snd (initialize sample_files (constructor sample_config))) = sample_ready \<and>
   initialized sample_ready \<and>
   client sample_ready = Some sample_instance \<and>
   initialize no_files sample_ready = (Inr (), sample_ready, []) \<and>
   getClient no_files sample_ready = (Inr sample_instance, sample_ready, []) \<and>
   run sample_host sample_ready
     [(sample_world no_files (Inr JNull), HelloWorld),
      (sample_world no_files (Inr JNull), VsmCancel ''S1'')] =
     (sample_ready,
      [HttpRequest sample_instance GET ''/vdp/helloworld'' None,
       HttpRequest sample_instance POST ''/vsm/v1/cancel'' (Some (JObj [(''stopId'', JStr ''S1'')]))])"
proof -
  have h1: "\<not> initialized (constructor sample_config)"
    by (simp add: constructor_def)
  have i: "initialize sample_files (constructor sample_config) =
      (Inr (), sample_ready, snd (snd (getClient sample_files (constructor sample_config))))"
    using sample_initialization
    by (cases "initialize sample_files (constructor sample_config)" rule: prod_cases3)
       (auto simp: getClient_def split: sum.splits option.splits)
  have h3: "initialized sample_ready" and cl: "client sample_ready = Some sample_instance"
    by (simp_all add: sample_ready_def)
  note t = initialized_client_reuses_its_handle [OF h1 i h3]
  have r: "run sample_host sample_ready
     [(sample_world no_files (Inr JNull), HelloWorld),
      (sample_world no_files (Inr JNull), VsmCancel ''S1'')] =
     (sample_ready,
      [HttpRequest sample_instance GET ''/vdp/helloworld'' None,
       HttpRequest sample_instance POST ''/vsm/v1/cancel'' (Some (JObj [(''stopId'', JStr ''S1'')]))])"
    by (simp add: helloWorld_def vsmCancel_def send_ready [OF h3 cl] sample_world_def)
  show ?thesis
    using h1 i h3 cl t r by simp
qed

section \<open>The HTTPS agent\<close>

lemma load_ca_no_agent: "load_ca fs cap = (r, t) \<Longrightarrow> NewAgent a \<notin> set t"
  by (auto simp: load_ca_def split: option.splits sum.splits if_splits)

lemma initialize_agent_aux:
  assumes "initialize fs c = (r, c', t)" and "NewAgent a \<in> set t"
  shows "rejectUnauthorized a \<and>
         readFileSync fs (certPath (config c)) = Inr (cert a) \<and>
         readFileSync fs (keyPath (config c)) = Inr (key a) \<and>
         fst (load_ca fs (caPath (config c))) = Inr (ca a) \<and>
         client c' \<noteq> None \<and> httpsAgent (the (client c')) = a"
  using assms
  by (auto simp: initialize_def Let_def split: if_splits sum.splits prod.splits
      dest: load_ca_no_agent)

lemma initialize_agent:
  assumes "NewAgent a \<in> set (snd (snd (initialize fs c)))"
  shows "rejectUnauthorized a \<and>
         readFileSync fs (certPath (config c)) = Inr (cert a) \<and>
         readFileSync fs (keyPath (config c)) = Inr (key a) \<and>
         (case caPath (config c) of
            None \<Rightarrow> ca a = None
          | Some p \<Rightarrow> if p \<noteq> [] \<and> existsSync fs p
                     then ca a \<noteq> None \<and> readFileSync fs p = Inr (the (ca a))
                     else ca a = None) \<and>
         client (fst (snd (initialize fs c))) \<noteq> None \<and>
         httpsAgent (the (client (fst (snd (initialize fs c))))) = a"
proof -
  obtain r c' t where i: "initialize fs c = (r, c', t)"
    using prod_cases3 by blast
  have nt: "NewAgent a \<in> set t" using assms i by simp
  note aux = initialize_agent_aux [OF i nt]
  obtain t1 where "load_ca fs (caPath (config c)) = (Inr (ca a), t1)"
    using aux by (cases "load_ca fs (caPath (config c))") simp
  from load_ca_value [OF this] aux i show ?thesis by simp
qed


lemma readFileSync_exists: "readFileSync fs p = Inr s \<Longrightarrow> existsSync fs p"
  by (auto simp: readFileSync_def existsSync_def split: option.splits)

lemma perform_agent:
  assumes "NewAgent a \<in> set (snd (snd (perform h w c op)))"
  shows "rejectUnauthorized a \<and>
         readFileSync (files w) (certPath (config c)) = Inr (cert a) \<and>
         readFileSync (files w) (keyPath (config c)) = Inr (key a) \<and>
         (case caPath (config c) of
            None \<Rightarrow> ca a = None
          | Some p \<Rightarrow> if p \<noteq> [] \<and> existsSync (files w) p
                     then ca a \<noteq> None \<and> readFileSync (files w) p = Inr (the (ca a))
                     else ca a = None) \<and>
         client (fst (snd (perform h w c op))) \<noteq> None \<and>
         httpsAgent (the (client (fst (snd (perform h w c op))))) = a"
proof -
  obtain t' where t: "snd (snd (perform h w c op)) = snd (snd (initialize (files w) c)) @ t'"
    and r: "list_all is_request t'"
    and c: "fst (snd (perform h w c op)) = fst (snd (initialize (files w) c))"
    using perform_trace by blast
  have "NewAgent a \<notin> set t'"
    using r by (auto simp: list_all_iff)
  then have "NewAgent a \<in> set (snd (snd (initialize (files w) c)))"
    using assms t by simp
  from initialize_agent [OF this] c show ?thesis by simp
qed

lemma run_agents: "NewAgent a \<in> set (snd (run h c ops)) \<Longrightarrow> rejectUnauthorized a"
proof (induction ops arbitrary: c)
  case Nil
  then show ?case by simp
next
  case (Cons wo rest)
  obtain w op where wo: "wo = (w, op)" by (cases wo)
  obtain r c' t where p: "perform h w c op = (r, c', t)"
    using prod_cases3 by blast
  obtain c'' t' where q: "run h c' rest = (c'', t')"
    by (cases "run h c' rest")
  from Cons.prems wo p q have "NewAgent a \<in> set t \<or> NewAgent a \<in> set t'"
    by simp
  then show ?case
  proof
    assume "NewAgent a \<in> set t"
    then have "NewAgent a \<in> set (snd (snd (perform h w c op)))" using p by simp
    from perform_agent [OF this] show ?thesis by simp
  next
    assume "NewAgent a \<in> set t'"
    then have "NewAgent a \<in> set (snd (run h c' rest))" using q by simp
    then show ?thesis by (rule Cons.IH)
  qed
qed

lemma perform_builds_agent:
  assumes "\<not> initialized c"
    and "readFileSync (files w) (certPath (config c)) = Inr certData"
    and "readFileSync (files w) (keyPath (config c)) = Inr keyData"
    and "fst (load_ca (files w) (caPath (config c))) = Inr caData"
  shows "NewAgent \<lparr> cert = certData, key = keyData, ca = caData, rejectUnauthorized = True \<rparr>
           \<in> set (snd (snd (perform h w c op)))"
proof -
  obtain t' where t: "snd (snd (perform h w c op)) = snd (snd (initialize (files w) c)) @ t'"
    using perform_trace by blast
  obtain t1 where "load_ca (files w) (caPath (config c)) = (Inr caData, t1)"
    using assms(4) by (cases "load_ca (files w) (caPath (config c))") simp
  then have "NewAgent \<lparr> cert = certData, key = keyData, ca = caData, rejectUnauthorized = True \<rparr>
      \<in> set (snd (snd (initialize (files w) c)))"
    using assms(1-3) readFileSync_exists [OF assms(2)] readFileSync_exists [OF assms(3)]
    by (simp add: initialize_def Let_def)
  then show ?thesis using t by simp
qed

text \<open>
  Claim C6. Whenever an operation constructs an HTTPS agent, the agent has
  \<open>rejectUnauthorized\<close> true, its certificate and key are the contents of the configured
  certificate and key files, its \<open>ca\<close> is the contents of the CA file when a CA path is
  configured (and not empty) and that file exists, and is absent otherwise, and the agent
  is the one of the client's handle. In any run of operations every agent constructed has
  \<open>rejectUnauthorized\<close> true. And an agent is constructed: on a client that is not
  initialized, when the certificate and the key can be read and reading the CA does not
  fail.
\<close>

theorem every_agent_verifies_the_server:
  "(\<forall>a. NewAgent a \<in> set (snd (snd (perform h w c op))) \<longrightarrow>
         rejectUnauthorized a \<and>
         readFileSync (files w) (certPath (config c)) = Inr (cert a) \<and>
         readFileSync (files w) (keyPath (config c)) = Inr (key a) \<and>
         (case caPath (config c) of
            None \<Rightarrow> ca a = None
          | Some p \<Rightarrow> if p \<noteq> [] \<and> existsSync (files w) p
                     then ca a \<noteq> None \<and> readFileSync (files w) p = Inr (the (ca a))
                     else ca a = None) \<and>
         client (fst (snd (perform h w c op))) \<noteq> None \<and>
         httpsAgent (the (client (fst (snd (perform h w c op))))) = a) \<and>
   (\<forall>ops a. NewAgent a \<in> set (snd (run h c ops)) \<longrightarrow> rejectUnauthorized a) \<and>
   (\<forall>certData keyData caData.
      \<not> initialized c \<and>
      readFileSync (files w) (certPath (config c)) = Inr certData \<and>
      readFileSync (files w) (keyPath (config c)) = Inr keyData \<and>
      fst (load_ca (files w) (caPath (config c))) = Inr caData \<longrightarrow>
      NewAgent \<lparr> cert = certData, key = keyData, ca = caData, rejectUnauthorized = True \<rparr>
        \<in> set (snd (snd (perform h w c op))))"
  using perform_agent run_agents perform_builds_agent by blast

theorem every_agent_verifies_the_server_witness:
  "NewAgent sample_agent \<in>
     set (snd (snd (perform sample_host (sample_world sample_files (Inr JNull))
                      (constructor sample_config) HelloWorld))) \<and>
   rejectUnauthorized sample_agent \<and>
   readFileSync sample_files ''./certs/cert.pem'' = Inr (cert sample_agent) \<and>
   readFileSync sample_files ''./certs/key.pem'' = Inr (key sample_agent) \<and>
   caPath sample_config = None \<and> ca sample_agent = None \<and>
   httpsAgent (the (client (fst (snd (perform sample_host (sample_world sample_files (Inr JNull))
                      (constructor sample_config) HelloWorld))))) = sample_agent"
proof -
  have p: "perform sample_host (sample_world sample_files (Inr JNull))
             (constructor sample_config) HelloWorld =
           (Inr JNull, sample_ready,
            snd (snd (getClient sample_files (constructor sample_config))) @
            [HttpRequest sample_instance GET ''/vdp/helloworld'' None])"
    using sample_initialization by (simp add: helloWorld_def send_def sample_world_def)
  have n: "NewAgent sample_agent \<in>
     set (snd (snd (perform sample_host (sample_world sample_files (Inr JNull))
                      (constructor sample_config) HelloWorld)))"
    unfolding p using sample_initialization by simp
  have cfg: "config (constructor sample_config) = sample_config"
    "files (sample_world sample_files (Inr JNull)) = sample_files"
    "certPath sample_config = ''./certs/cert.pem''" "keyPath sample_config = ''./certs/key.pem''"
    "caPath sample_config = None"
    by (simp_all add: constructor_def sample_world_def sample_config_def)
  from every_agent_verifies_the_server
    [of sample_host "sample_world sample_files (Inr JNull)" "constructor sample_config" HelloWorld]
  have "NewAgent sample_agent \<in>
         set (snd (snd (perform sample_host (sample_world sample_files (Inr JNull))
                          (constructor sample_config) HelloWorld))) \<longrightarrow>
       rejectUnauthorized sample_agent \<and>
       readFileSync sample_files ''./certs/cert.pem'' = Inr (cert sample_agent) \<and>
       readFileSync sample_files ''./certs/key.pem'' = Inr (key sample_agent) \<and>
       ca sample_agent = None \<and>
       httpsAgent (the (client (fst (snd (perform sample_host (sample_world sample_files (Inr JNull))
                      (constructor sample_config) HelloWorld))))) = sample_agent"
    by (simp add: cfg)
  then show ?thesis using n cfg(5) by simp
qed

section \<open>One request per operation\<close>

lemma getClient_no_request: "getClient fs c = (r, c', t) \<Longrightarrow> filter is_request t = []"
proof -
  assume g: "getClient fs c = (r, c', t)"
  have "snd (snd (initialize fs c)) = snd (snd (getClient fs c))"
    by (simp add: getClient_initialize)
  then have "snd (snd (initialize fs c)) = t" by (simp add: g)
  then show ?thesis using initialize_no_request [of fs c] by simp
qed

text \<open>
  Claim C7. An operation for which \<open>getClient\<close> returns a handle makes exactly one HTTP
  request, through that handle, with the verb and the path of the operation: the path
  depends on the operation only, and the verb is GET for \<open>helloWorld\<close> and POST for every
  other operation. This holds whether the request is answered or rejected: nothing is
  sent again. An operation for which \<open>getClient\<close> throws makes no request.
\<close>

theorem one_request_per_operation:
  "(\<forall>inst c' t. getClient (files w) c = (Inr inst, c', t) \<longrightarrow>
      (\<exists>b. filter is_request (snd (snd (perform h w c op))) =
             [HttpRequest inst (verb_of op) (path_of op) b])) \<and>
   (\<forall>e c' t. getClient (files w) c = (Inl e, c', t) \<longrightarrow>
      filter is_request (snd (snd (perform h w c op))) = []) \<and>
   length (filter is_request (snd (snd (perform h w c op)))) \<le> 1 \<and>
   verb_of op = (if op = HelloWorld then GET else POST)"
proof -
  obtain b where p: "perform h w c op = send w c (verb_of op) (path_of op) b"
    using perform_send by blast
  have sent: "filter is_request (snd (snd (perform h w c op))) =
      [HttpRequest inst (verb_of op) (path_of op) b]"
    if "getClient (files w) c = (Inr inst, c', t)" for inst c' t
    using p send_sent [OF that] getClient_no_request [OF that] by simp
  have failed: "filter is_request (snd (snd (perform h w c op))) = []"
    if "getClient (files w) c = (Inl e, c', t)" for e c' t
    using p send_failed [OF that] getClient_no_request [OF that] by simp
  have most: "length (filter is_request (snd (snd (perform h w c op)))) \<le> 1"
  proof -
    obtain r c' t where g: "getClient (files w) c = (r, c', t)"
      using prod_cases3 by blast
    show ?thesis
      using sent failed g by (cases r) simp_all
  qed
  have verb: "verb_of op = (if op = HelloWorld then GET else POST)"
    by (cases op) simp_all
  show ?thesis
    using sent failed most verb by blast
qed

theorem one_request_per_operation_witness:
  "getClient (files (sample_world sample_files (Inl (''Network Error'', None)))) (constructor sample_config) =
     (Inr sample_instance, sample_ready,
      [ExistsSync ''./certs/cert.pem'', ExistsSync ''./certs/key.pem'',
       ReadFileSync ''./certs/cert.pem'', ReadFileSync ''./certs/key.pem'',
       NewAgent sample_agent, AxiosCreate sample_instance,
       ConsoleLog (check_mark @ '' Visa API client initialized (sandbox)'')]) \<and>
   filter is_request
     (snd (snd (perform sample_host (sample_world sample_files (Inl (''Network Error'', None)))
                  (constructor sample_config) (VspsCancelStop ''S1'')))) =
     [HttpRequest sample_instance POST ''/vsps/v1/stopinstructions/cancel''
        (Some (JObj [(''stopId'', JStr ''S1'')]))] \<and>
   fst (perform sample_host (sample_world sample_files (Inl (''Network Error'', None)))
          (constructor sample_config) (VspsCancelStop ''S1'')) =
     Inl (AxiosError ''Network Error'' None)"
proof -
  have f: "files (sample_world sample_files (Inl (''Network Error'', None))) = sample_files"
    by (simp add: sample_world_def)
  have g: "getClient (files (sample_world sample_files (Inl (''Network Error'', None))))
             (constructor sample_config) =
           (Inr sample_instance, sample_ready,
            [ExistsSync ''./certs/cert.pem'', ExistsSync ''./certs/key.pem'',
             ReadFileSync ''./certs/cert.pem'', ReadFileSync ''./certs/key.pem'',
             NewAgent sample_agent, AxiosCreate sample_instance,
             ConsoleLog (check_mark @ '' Visa API client initialized (sandbox)'')])"
    unfolding f by (rule sample_initialization)
  from one_request_per_operation
    [of "sample_world sample_files (Inl (''Network Error'', None))" "constructor sample_config"
        sample_host "VspsCancelStop ''S1''"] g
  obtain b where b: "filter is_request
     (snd (snd (perform sample_host (sample_world sample_files (Inl (''Network Error'', None)))
                  (constructor sample_config) (VspsCancelStop ''S1'')))) =
     [HttpRequest sample_instance (verb_of (VspsCancelStop ''S1'')) (path_of (VspsCancelStop ''S1'')) b]"
    by blast
  have p: "perform sample_host (sample_world sample_files (Inl (''Network Error'', None)))
             (constructor sample_config) (VspsCancelStop ''S1'') =
           (Inl (AxiosError ''Network Error'' None), sample_ready,
            snd (snd (getClient sample_files (constructor sample_config))) @
            [HttpRequest sample_instance POST ''/vsps/v1/stopinstructions/cancel''
               (Some (JObj [(''stopId'', JStr ''S1'')]))])"
    using sample_initialization by (simp add: vspsCancelStop_def send_def sample_world_def)
  have "b = Some (JObj [(''stopId'', JStr ''S1'')])"
    using b unfolding p using sample_initialization by simp
  then show ?thesis
    using b g p by simp
qed

section \<open>Conversion to a string\<close>

lemma collect_Inr: "(\<forall>r \<in> set rs. \<exists>x. r = Inr x) \<Longrightarrow> \<exists>xs. collect rs = Inr xs"
  by (induction rs) auto

lemma collect_Inr_all: "collect rs = Inr xs \<Longrightarrow> \<forall>r \<in> set rs. \<exists>x. r = Inr x"
  by (induction rs arbitrary: xs rule: collect.induct) (auto split: sum.splits)

lemma collect_Inl_mem: "collect rs = Inl e \<Longrightarrow> Inl e \<in> set rs"
  by (induction rs rule: collect.induct) (auto split: sum.splits)

text \<open>The only exception of a conversion is the one of an object that has no primitive value.\<close>

lemma toStr_error: "toStr h v = Inl e \<Longrightarrow> e = cannot_convert"
proof (induction h v arbitrary: e rule: toStr.induct)
  case (5 h xs)
  then obtain e' where "collect (map (\<lambda>x. if x = JNull then Inr [] else toStr h x) xs) = Inl e'"
    and "e' = e"
    by (auto split: sum.splits)
  then have "Inl e \<in> set (map (\<lambda>x. if x = JNull then Inr [] else toStr h x) xs)"
    using collect_Inl_mem by fastforce
  then obtain x where "x \<in> set xs" and "x \<noteq> JNull" and "toStr h x = Inl e"
    by (auto split: if_splits)
  then show ?case using "5.IH" by blast
qed (auto split: if_splits)

lemma toStr_printable: "printable v \<Longrightarrow> \<exists>s. toStr h v = Inr s"
proof (induction h v rule: toStr.induct)
  case (5 h xs)
  have "\<forall>r \<in> set (map (\<lambda>x. if x = JNull then Inr [] else toStr h x) xs). \<exists>s. r = Inr s"
    using 5 by auto
  then obtain ss where "collect (map (\<lambda>x. if x = JNull then Inr [] else toStr h x) xs) = Inr ss"
    using collect_Inr by blast
  then show ?case by simp
qed simp_all

lemma toStr_unprintable: "\<not> printable v \<Longrightarrow> toStr h v = Inl cannot_convert"
proof (induction h v rule: toStr.induct)
  case (5 h xs)
  then obtain x where x: "x \<in> set xs" "x \<noteq> JNull" "\<not> printable x"
    by auto
  then have bad: "toStr h x = Inl cannot_convert"
    using "5.IH" by blast
  show ?case
  proof (cases "toStr h (JArr xs)")
    case (Inl e)
    then show ?thesis using toStr_error by blast
  next
    case (Inr s)
    then obtain ss where "collect (map (\<lambda>x. if x = JNull then Inr [] else toStr h x) xs) = Inr ss"
      by (auto split: sum.splits)
    then have "\<forall>r \<in> set (map (\<lambda>x. if x = JNull then Inr [] else toStr h x) xs). \<exists>s. r = Inr s"
      by (rule collect_Inr_all)
    then have "\<exists>s. toStr h x = Inr s"
      using x(1,2) by auto
    then show ?thesis using bad by simp
  qed
qed simp_all

lemma toStr_Inr_printable: "toStr h v = Inr s \<Longrightarrow> printable v"
  using toStr_unprintable [of v h] by auto

section \<open>Failures at the tool boundary\<close>

lemma try_format_trace: "snd (try_format h r) = snd r"
  by (cases r rule: prod_cases3) (simp add: try_format_def split: sum.splits)

lemma invoke_failed:
  assumes "perform h w c (delegate tc) = (Inl e, c', t)"
  shows "invoke h w c tc = (on_error h e, c', t)"
  using assms
  by (cases tc)
     (simp_all add: hello_world_def get_exchange_rate_def find_nearby_atms_def vsm_search_def
        vsm_merchant_details_def vsm_add_merchant_def vsm_cancel_def vsps_search_instructions_def
        vsps_search_eligible_def vsps_add_stop_def vsps_cancel_stop_def vsps_update_stop_def
        vsps_extend_stop_def try_format_def)

lemma on_error_structured:
  "truthy_opt (structured_message e) \<Longrightarrow> toStr h (the (structured_message e)) = Inr s \<Longrightarrow>
   on_error h e = Inr [Text (''Error: '' @ s)]"
  by (cases "structured_message e") (simp_all add: on_error_def formatResponse_def)

lemma on_error_generic:
  "\<not> truthy_opt (structured_message e) \<Longrightarrow> message e \<noteq> [] \<Longrightarrow>
   on_error h e = Inr [Text (''Error: '' @ message e)]"
  by (cases "structured_message e") (simp_all add: on_error_def formatResponse_def)

text \<open>
  Claim C5 (as amended). For every tool, when the client call it delegates to throws, the
  tool ends as its \<open>catch\<close> handler does, and the client and the effects are those of
  the failed call. When the error carries a truthy structured message
  (\<open>error.response.data.message\<close>) that is printable, the tool returns the envelope whose
  text is \<open>Error: \<close> followed by the text of that message: the message itself, unchanged,
  when it is a string, which then is not empty. When the structured message is absent or
  falsy (the empty string among others) and the error's own message is not empty, the tool
  returns the envelope whose text is \<open>Error: \<close> followed by the error's own message. In
  both cases the envelope is a failure envelope.
\<close>

theorem failed_call_becomes_error_envelope:
  assumes "perform h w c (delegate tc) = (Inl e, c', t)"
  shows "invoke h w c tc = (on_error h e, c', t) \<and>
         (\<forall>m. structured_message e = Some (JStr m) \<and> m \<noteq> [] \<longrightarrow>
               fst (invoke h w c tc) = Inr [Text (''Error: '' @ m)]) \<and>
         (truthy_opt (structured_message e) \<and> printable (the (structured_message e)) \<longrightarrow>
            (\<exists>s. toStr h (the (structured_message e)) = Inr s \<and>
                 fst (invoke h w c tc) = Inr [Text (''Error: '' @ s)])) \<and>
         (\<not> truthy_opt (structured_message e) \<and> message e \<noteq> [] \<longrightarrow>
            fst (invoke h w c tc) = Inr [Text (''Error: '' @ message e)]) \<and>
         (truthy_opt (structured_message e) \<and> printable (the (structured_message e)) \<or>
          \<not> truthy_opt (structured_message e) \<and> message e \<noteq> [] \<longrightarrow>
            is_failure (fst (invoke h w c tc)))"
proof -
  have i: "invoke h w c tc = (on_error h e, c', t)"
    using invoke_failed [OF assms] .
  have a: "on_error h e = Inr [Text (''Error: '' @ m)]"
    if "structured_message e = Some (JStr m)" and "m \<noteq> []" for m
    using that on_error_structured [of e h m] by simp
  have b: "\<exists>s. toStr h (the (structured_message e)) = Inr s \<and>
               on_error h e = Inr [Text (''Error: '' @ s)]"
    if "truthy_opt (structured_message e)" and "printable (the (structured_message e))"
    using that toStr_printable [OF that(2), of h] on_error_structured [of e h] by blast
  have g: "on_error h e = Inr [Text (''Error: '' @ message e)]"
    if "\<not> truthy_opt (structured_message e)" and "message e \<noteq> []"
    using that by (rule on_error_generic)
  have f: "is_failure (on_error h e)"
    if "truthy_opt (structured_message e) \<and> printable (the (structured_message e)) \<or>
        \<not> truthy_opt (structured_message e) \<and> message e \<noteq> []"
    using that b g by auto
  show ?thesis
    using i a b g f by simp
qed

text \<open>
  A structured message that is present but empty is not placed in the envelope: the
  rejection of a 400 answer whose body is \<open>{"message": ""}\<close> gives the text of the
  error's own message. And a structured message that is an object with a property named
  \<open>toString\<close> gives no envelope: converting it throws in the \<open>catch\<close> block.
\<close>

theorem empty_structured_message_counterexample:
  "perform sample_host
     (sample_world no_files
        (Inl (''Request failed with status code 400'', Some (JObj [(''message'', JStr [])]))))
     sample_ready (delegate Hello_world) =
     (Inl (AxiosError ''Request failed with status code 400'' (Some (JObj [(''message'', JStr [])]))),
      sample_ready, [HttpRequest sample_instance GET ''/vdp/helloworld'' None]) \<and>
   structured_message
     (AxiosError ''Request failed with status code 400'' (Some (JObj [(''message'', JStr [])]))) =
     Some (JStr []) \<and>
   fst (invoke sample_host
          (sample_world no_files
             (Inl (''Request failed with status code 400'', Some (JObj [(''message'', JStr [])]))))
          sample_ready Hello_world) =
     Inr [Text ''Error: Request failed with status code 400''] \<and>
   fst (invoke sample_host
          (sample_world no_files
             (Inl (''Request failed with status code 400'', Some (JObj [(''message'', JStr [])]))))
          sample_ready Hello_world) \<noteq> Inr [Text (''Error: '' @ [])] \<and>
   structured_message
     (AxiosError ''Request failed with status code 400''
        (Some (JObj [(''message'', JObj [(''toString'', JNum 1)])]))) =
     Some (JObj [(''toString'', JNum 1)]) \<and>
   fst (invoke sample_host
          (sample_world no_files
             (Inl (''Request failed with status code 400'',
                   Some (JObj [(''message'', JObj [(''toString'', JNum 1)])]))))
          sample_ready Hello_world) =
     Inl (TypeError ''Cannot convert object to primitive value'')"
proof -
  have r: "initialized sample_ready" "client sample_ready = Some sample_instance"
    by (simp_all add: sample_ready_def)
  show ?thesis
    by (simp add: hello_world_def helloWorld_def send_ready [OF r] sample_world_def try_format_def
        on_error_def formatResponse_def structured_message_def cannot_convert_def)
qed

theorem failed_call_becomes_error_envelope_witness:
  "perform sample_host
     (sample_world no_files
        (Inl (''Request failed with status code 400'', Some (JObj [(''message'', JStr ''Invalid PAN'')]))))
     sample_ready (delegate (Vsm_search ''4111111111111111'')) =
     (Inl (AxiosError ''Request failed with status code 400''
             (Some (JObj [(''message'', JStr ''Invalid PAN'')]))),
      sample_ready,
      [HttpRequest sample_instance POST ''/vsm/v1/search''
         (Some (JObj [(''pan'', JStr ''4111111111111111'')]))]) \<and>
   fst (invoke sample_host
          (sample_world no_files
             (Inl (''Request failed with status code 400'', Some (JObj [(''message'', JStr ''Invalid PAN'')]))))
          sample_ready (Vsm_search ''4111111111111111'')) =
     Inr [Text ''Error: Invalid PAN'']"
proof -
  have r: "initialized sample_ready" "client sample_ready = Some sample_instance"
    by (simp_all add: sample_ready_def)
  have p: "perform sample_host
     (sample_world no_files
        (Inl (''Request failed with status code 400'', Some (JObj [(''message'', JStr ''Invalid PAN'')]))))
     sample_ready (delegate (Vsm_search ''4111111111111111'')) =
     (Inl (AxiosError ''Request failed with status code 400''
             (Some (JObj [(''message'', JStr ''Invalid PAN'')]))),
      sample_ready,
      [HttpRequest sample_instance POST ''/vsm/v1/search''
         (Some (JObj [(''pan'', JStr ''4111111111111111'')]))])"
    by (simp add: vsmSearch_def send_ready [OF r] sample_world_def)
  have m: "structured_message (AxiosError ''Request failed with status code 400''
             (Some (JObj [(''message'', JStr ''Invalid PAN'')]))) = Some (JStr ''Invalid PAN'') \<and>
           ''Invalid PAN'' \<noteq> []"
    by (simp add: structured_message_def)
  from failed_call_becomes_error_envelope [OF p] m
  have "fst (invoke sample_host
          (sample_world no_files
             (Inl (''Request failed with status code 400'', Some (JObj [(''message'', JStr ''Invalid PAN'')]))))
          sample_ready (Vsm_search ''4111111111111111'')) =
     Inr [Text (''Error: '' @ ''Invalid PAN'')]"
    by blast
  then show ?thesis using p by simp
qed

section \<open>The bodies of the create operations\<close>

lemma bodies_single: "bodies [HttpRequest inst v p (Some b)] = [b]"
  by (simp add: bodies_def List.map_filter_simps)

lemma bodies_append: "bodies (t @ u) = bodies t @ bodies u"
  by (simp add: bodies_def List.map_filter_def)

lemma bodies_no_request: "filter is_request t = [] \<Longrightarrow> bodies t = []"
proof (induction t)
  case Nil
  show ?case by (simp add: bodies_def List.map_filter_simps)
next
  case (Cons e t)
  then have "\<not> is_request e" and "bodies t = []"
    by (auto split: if_splits)
  then show ?case
    by (cases e) (simp_all add: bodies_def List.map_filter_simps)
qed

lemma send_ready_bodies:
  "initialized c \<Longrightarrow> client c = Some inst \<Longrightarrow>
   bodies (snd (snd (send w c v p (Some b)))) = [b]"
  by (simp add: send_ready bodies_single)

text \<open>The body of the request, also when the call is the one that initializes the client.\<close>

lemma send_sent_bodies:
  assumes "getClient (files w) c = (Inr inst, c', t)"
  shows "bodies (snd (snd (send w c v p (Some b)))) = [b]"
  using send_sent [OF assms] bodies_no_request [OF getClient_no_request [OF assms]]
  by (simp add: bodies_append bodies_single)

text \<open>
  Claim C4 (as amended). Whenever \<open>getClient\<close> yields a handle, be the client initialized
  before the call or by it, the body of a stop-instruction create holds \<open>pan\<close> and
  \<open>level\<close>, and \<open>merchantId\<close> only at level \<open>merchant\<close> with a merchant identifier that
  is supplied and not empty, \<open>mcc\<close> only at level \<open>mcc\<close> with a category code that is
  supplied and not empty: an optional argument that is not supplied is omitted, never sent
  as null or empty; at level \<open>merchant\<close> without a merchant identifier the body is exactly
  \<open>{pan, level}\<close>. The body of a subscription stop create always holds a \<open>reason\<close>: the
  caller's when it is supplied and not empty, the default \<open>Subscription cancellation\<close>
  otherwise.
\<close>

theorem create_request_bodies:
  assumes "getClient (files w) c = (Inr inst, c', t)"
  shows "bodies (snd (snd (vspsAddStop w c pan Merchant None mcc))) =
           [JObj [(''pan'', JStr pan), (''level'', JStr ''merchant'')]] \<and>
         bodies (snd (snd (vspsAddStop w c pan Merchant (Some []) mcc))) =
           [JObj [(''pan'', JStr pan), (''level'', JStr ''merchant'')]] \<and>
         (\<forall>m. m \<noteq> [] \<longrightarrow>
            bodies (snd (snd (vspsAddStop w c pan Merchant (Some m) mcc))) =
              [JObj [(''pan'', JStr pan), (''level'', JStr ''merchant''), (''merchantId'', JStr m)]]) \<and>
         bodies (snd (snd (vspsAddStop w c pan Mcc merchantId None))) =
           [JObj [(''pan'', JStr pan), (''level'', JStr ''mcc'')]] \<and>
         bodies (snd (snd (vspsAddStop w c pan Mcc merchantId (Some [])))) =
           [JObj [(''pan'', JStr pan), (''level'', JStr ''mcc'')]] \<and>
         (\<forall>k. k \<noteq> [] \<longrightarrow>
            bodies (snd (snd (vspsAddStop w c pan Mcc merchantId (Some k)))) =
              [JObj [(''pan'', JStr pan), (''level'', JStr ''mcc''), (''mcc'', JStr k)]]) \<and>
         bodies (snd (snd (vspsAddStop w c pan Pan merchantId mcc))) =
           [JObj [(''pan'', JStr pan), (''level'', JStr ''pan'')]] \<and>
         bodies (snd (snd (vsmAddMerchant w c pan mid None))) =
           [JObj [(''pan'', JStr pan), (''merchantId'', JStr mid),
                  (''reason'', JStr ''Subscription cancellation'')]] \<and>
         bodies (snd (snd (vsmAddMerchant w c pan mid (Some [])))) =
           [JObj [(''pan'', JStr pan), (''merchantId'', JStr mid),
                  (''reason'', JStr ''Subscription cancellation'')]] \<and>
         (\<forall>r. r \<noteq> [] \<longrightarrow>
            bodies (snd (snd (vsmAddMerchant w c pan mid (Some r)))) =
              [JObj [(''pan'', JStr pan), (''merchantId'', JStr mid), (''reason'', JStr r)]])"
  by (simp add: vspsAddStop_def vsmAddMerchant_def send_sent_bodies [OF assms] addStopPayload_def)

theorem create_request_bodies_witness:
  "getClient (files (sample_world sample_files (Inr JNull))) (constructor sample_config) =
     (Inr sample_instance, sample_ready,
      [ExistsSync ''./certs/cert.pem'', ExistsSync ''./certs/key.pem'',
       ReadFileSync ''./certs/cert.pem'', ReadFileSync ''./certs/key.pem'',
       NewAgent sample_agent, AxiosCreate sample_instance,
       ConsoleLog (check_mark @ '' Visa API client initialized (sandbox)'')]) \<and>
   bodies (snd (snd (vspsAddStop (sample_world sample_files (Inr JNull)) (constructor sample_config)
                       ''4111111111111111'' Merchant None None))) =
     [JObj [(''pan'', JStr ''4111111111111111''), (''level'', JStr ''merchant'')]] \<and>
   bodies (snd (snd (vsmAddMerchant (sample_world sample_files (Inr JNull)) (constructor sample_config)
                       ''4111111111111111'' ''M1'' (Some ''moved'')))) =
     [JObj [(''pan'', JStr ''4111111111111111''), (''merchantId'', JStr ''M1''),
            (''reason'', JStr ''moved'')]]"
proof -
  have f: "files (sample_world sample_files (Inr JNull)) = sample_files"
    by (simp add: sample_world_def)
  have g: "getClient (files (sample_world sample_files (Inr JNull))) (constructor sample_config) =
     (Inr sample_instance, sample_ready,
      [ExistsSync ''./certs/cert.pem'', ExistsSync ''./certs/key.pem'',
       ReadFileSync ''./certs/cert.pem'', ReadFileSync ''./certs/key.pem'',
       NewAgent sample_agent, AxiosCreate sample_instance,
       ConsoleLog (check_mark @ '' Visa API client initialized (sandbox)'')])"
    unfolding f by (rule sample_initialization)
  have n: "''moved'' \<noteq> []" by simp
  from create_request_bodies [OF g] n show ?thesis
    using g by blast
qed

text \<open>
  A subscription stop create without a reason sends a body with a \<open>reason\<close> property, the
  default one.
\<close>

theorem default_reason_counterexample:
  "bodies (snd (snd (vsmAddMerchant (sample_world no_files (Inr JNull)) sample_ready
                       ''4111111111111111'' ''M1'' None))) =
     [JObj [(''pan'', JStr ''4111111111111111''), (''merchantId'', JStr ''M1''),
            (''reason'', JStr ''Subscription cancellation'')]] \<and>
   has_field ''reason''
     (JObj [(''pan'', JStr ''4111111111111111''), (''merchantId'', JStr ''M1''),
            (''reason'', JStr ''Subscription cancellation'')])"
proof -
  have r: "initialized sample_ready" "client sample_ready = Some sample_instance"
    by (simp_all add: sample_ready_def)
  show ?thesis
    by (simp add: vsmAddMerchant_def send_ready_bodies [OF r])
qed

section \<open>The ATM search tool\<close>

lemma get_prop_nonnull: "data \<noteq> JNull \<Longrightarrow> get_prop data n = Inr (get_prop_opt (Some data) n)"
  by (cases data) simp_all

lemma find_nearby_atms_trace:
  "snd (find_nearby_atms h w c la lo d) = snd (findNearbyAtms w c la lo (Some (num_or d 5)) None)"
  by (cases "findNearbyAtms w c la lo (Some (num_or d 5)) None" rule: prod_cases3)
     (simp add: find_nearby_atms_def Let_def split: sum.splits)

lemma show_nat_0: "show_nat 0 = ''0''"
  by (simp add: show_nat.simps)

text \<open>
  Claim C8 (as amended). When the ATM search returns a body other than \<open>null\<close> in which
  \<open>responseData?.atmList\<close> is absent, falsy or the empty array, the tool returns the
  envelope with the text \<open>Found 0 ATMs nearby:\<close>, an empty line and \<open>No ATMs found\<close>,
  which is not a failure envelope, with the client and the effects of the search.
\<close>

theorem no_atms_is_reported_not_thrown:
  assumes "findNearbyAtms w c la lo (Some (num_or d 5)) None = (Inr data, c', t)"
    and "data \<noteq> JNull"
    and "\<not> truthy_opt (get_prop_opt (get_prop_opt (Some data) ''responseData'') ''atmList'') \<or>
         get_prop_opt (get_prop_opt (Some data) ''responseData'') ''atmList'' = Some (JArr [])"
  shows "invoke h w c (Find_nearby_atms la lo d) =
           (Inr [Text ''Found 0 ATMs nearby:\<newline>\<newline>No ATMs found''], c', t) \<and>
         \<not> is_failure (fst (invoke h w c (Find_nearby_atms la lo d)))"
proof -
  have "or_else (get_prop_opt (get_prop_opt (Some data) ''responseData'') ''atmList'') (JArr []) = JArr []"
    using assms(3)
    by (cases "get_prop_opt (get_prop_opt (Some data) ''responseData'') ''atmList''") auto
  then show ?thesis
    using assms(1) get_prop_nonnull [OF assms(2), of "''responseData''"]
    by (simp add: find_nearby_atms_def show_nat_0)
qed

text \<open>
  A response whose body is \<open>null\<close> holds no ATM list at all, and the tool returns a failure
  envelope: reading \<open>data.responseData\<close> throws, and the \<open>catch\<close> handler formats the
  \<open>TypeError\<close>.
\<close>

theorem null_body_counterexample:
  "findNearbyAtms (sample_world no_files (Inr JNull)) sample_ready 48 2 (Some (num_or None 5)) None =
     (Inr JNull, sample_ready,
      [HttpRequest sample_instance POST ''/globalatmlocator/v1/localatms/atmLocator''
         (Some (JObj
           [(''wsRequestHeaderV2'',
               JObj [(''requestTs'', JStr ''2024-01-01T00:00:00.000Z''), (''applicationId'', JStr ''VISA_MCP'')]),
            (''requestData'',
               JObj [(''location'',
                        JObj [(''geocodes'', JObj [(''latitude'', JNum 48), (''longitude'', JNum 2)])]),
                     (''options'',
                        JObj [(''range'', JObj [(''distance'', JNum 5), (''distanceUnit'', JStr ''km'')]),
                              (''findFilters'', JArr []),
                              (''sort'', JObj [(''primary'', JStr ''distance''), (''direction'', JStr ''asc'')])])])]))]) \<and>
   get_prop_opt (get_prop_opt (Some JNull) ''responseData'') ''atmList'' = None \<and>
   fst (invoke sample_host (sample_world no_files (Inr JNull)) sample_ready (Find_nearby_atms 48 2 None)) =
     Inr [Text (''Error: Cannot read properties of null (reading '' @ [CHR 0x27] @ ''responseData'' @ [CHR 0x27] @ '')'')] \<and>
   is_failure (fst (invoke sample_host (sample_world no_files (Inr JNull)) sample_ready
                      (Find_nearby_atms 48 2 None)))"
proof -
  have r: "initialized sample_ready" "client sample_ready = Some sample_instance"
    by (simp_all add: sample_ready_def)
  show ?thesis
    by (simp add: find_nearby_atms_def findNearbyAtms_def send_ready [OF r] sample_world_def
        on_error_def formatResponse_def structured_message_def)
qed

lemma outcome_collapse: "fst x = r \<Longrightarrow> x = (r, fst (snd x), snd (snd x))"
  by (cases x rule: prod_cases3) simp

theorem no_atms_is_reported_not_thrown_witness:
  "fst (findNearbyAtms
          (sample_world no_files (Inr (JObj [(''responseData'', JObj [(''atmList'', JArr [])])])))
          sample_ready 48 2 (Some (num_or None 5)) None) =
     Inr (JObj [(''responseData'', JObj [(''atmList'', JArr [])])]) \<and>
   JObj [(''responseData'', JObj [(''atmList'', JArr [])])] \<noteq> JNull \<and>
   get_prop_opt (get_prop_opt (Some (JObj [(''responseData'', JObj [(''atmList'', JArr [])])]))
                   ''responseData'') ''atmList'' = Some (JArr []) \<and>
   fst (invoke sample_host
          (sample_world no_files (Inr (JObj [(''responseData'', JObj [(''atmList'', JArr [])])])))
          sample_ready (Find_nearby_atms 48 2 None)) =
     Inr [Text ''Found 0 ATMs nearby:\<newline>\<newline>No ATMs found'']"
proof -
  have r: "initialized sample_ready" "client sample_ready = Some sample_instance"
    by (simp_all add: sample_ready_def)
  have f: "fst (findNearbyAtms
          (sample_world no_files (Inr (JObj [(''responseData'', JObj [(''atmList'', JArr [])])])))
          sample_ready 48 2 (Some (num_or None 5)) None) =
     Inr (JObj [(''responseData'', JObj [(''atmList'', JArr [])])])"
    by (simp add: findNearbyAtms_def send_ready [OF r] sample_world_def)
  have n: "JObj [(''responseData'', JObj [(''atmList'', JArr [])])] \<noteq> JNull"
    by simp
  have l: "get_prop_opt (get_prop_opt (Some (JObj [(''responseData'', JObj [(''atmList'', JArr [])])]))
                   ''responseData'') ''atmList'' = Some (JArr [])"
    by simp
  from no_atms_is_reported_not_thrown [OF outcome_collapse [OF f] n disjI2 [OF l], of sample_host]
  show ?thesis using f n l by simp
qed

text \<open>The callback makes a line of exactly the listable entries, and a line is never empty.\<close>

lemma atm_line_ok: "listable atm \<Longrightarrow> \<exists>l. atm_line h i atm = Inr l \<and> l \<noteq> []"
proof -
  assume l: "listable atm"
  then have n: "atm \<noteq> JNull" by (simp add: listable_def)
  obtain s1 where s1: "toStr h (or_else (get_prop_opt (Some atm) ''atmName'') (JStr ''ATM'')) = Inr s1"
    using l toStr_printable unfolding listable_def by blast
  obtain s2 where s2: "toStr h (or_else (get_prop_opt (get_prop_opt (Some atm) ''address'') ''street'')
                                  (JStr ''Unknown'')) = Inr s2"
    using l toStr_printable unfolding listable_def by blast
  obtain s3 where s3: "toStr h (or_else (get_prop_opt (get_prop_opt (Some atm) ''address'') ''city'')
                                  (JStr [])) = Inr s3"
    using l toStr_printable unfolding listable_def by blast
  obtain s4 where s4: "toStr h (or_else (get_prop_opt (Some atm) ''distance'') (JStr ''?'')) = Inr s4"
    using l toStr_printable unfolding listable_def by blast
  show ?thesis
    using s1 s2 s3 s4 by (simp add: atm_line_def get_prop_nonnull [OF n])
qed

lemma atm_line_listable: "atm_line h i atm = Inr l \<Longrightarrow> listable atm"
proof -
  assume a: "atm_line h i atm = Inr l"
  have n: "atm \<noteq> JNull"
    using a by (auto simp: atm_line_def)
  show ?thesis
    using a unfolding listable_def atm_line_def get_prop_nonnull [OF n]
    by (auto simp: n split: sum.splits dest: toStr_Inr_printable)
qed

lemma atm_lines_ok:
  "\<forall>atm \<in> set xs. listable atm \<Longrightarrow>
   \<exists>ls. atm_lines h i xs = Inr ls \<and> length ls = length xs \<and> [] \<notin> set ls \<and>
        (\<forall>j < length xs. atm_line h (i + j) (xs ! j) = Inr (ls ! j))"
proof (induction xs arbitrary: i)
  case Nil
  show ?case by simp
next
  case (Cons atm rest)
  then have "listable atm" and "\<forall>atm \<in> set rest. listable atm" by auto
  obtain l where l: "atm_line h i atm = Inr l" "l \<noteq> []"
    using atm_line_ok [OF \<open>listable atm\<close>] by blast
  obtain ls where ls: "atm_lines h (Suc i) rest = Inr ls" "length ls = length rest" "[] \<notin> set ls"
    "\<forall>j < length rest. atm_line h (Suc i + j) (rest ! j) = Inr (ls ! j)"
    using Cons.IH [OF \<open>\<forall>atm \<in> set rest. listable atm\<close>] by blast
  have "\<forall>j < length (atm # rest). atm_line h (i + j) ((atm # rest) ! j) = Inr ((l # ls) ! j)"
  proof (intro allI impI)
    fix j assume "j < length (atm # rest)"
    then show "atm_line h (i + j) ((atm # rest) ! j) = Inr ((l # ls) ! j)"
      using l(1) ls(4) by (cases j) simp_all
  qed
  then show ?case
    using l ls by auto
qed

lemma join_nonempty: "ls \<noteq> [] \<Longrightarrow> [] \<notin> set ls \<Longrightarrow> join sep ls \<noteq> []"
  by (cases "(sep, ls)" rule: join.cases) auto

text \<open>
  Claim C9 (as amended). Let the ATM search return a body other than \<open>null\<close>, let the list
  of ATMs (\<open>responseData?.atmList || []\<close>) be an array, and let each of its first ten
  entries be listable: not \<open>null\<close>, and with printable values for the name, the street,
  the city and the distance. Then the text of the envelope is
  \<open>Found n ATMs nearby:\<close> with \<open>n\<close> the length of the whole array, an empty line, and the
  lines of the first ten entries only, joined by newlines (or \<open>No ATMs found\<close> for the empty
  array): there are \<open>min 10 n\<close> lines, line \<open>j\<close> is the callback's line of entry \<open>j\<close>, and
  the entries after the tenth do not occur in the result, whatever they are.
\<close>

theorem atm_listing_counts_all_and_shows_ten:
  assumes "findNearbyAtms w c la lo (Some (num_or d 5)) None = (Inr data, c', t)"
    and "data \<noteq> JNull"
    and "or_else (get_prop_opt (get_prop_opt (Some data) ''responseData'') ''atmList'') (JArr []) = JArr xs"
    and "\<forall>atm \<in> set (take 10 xs). listable atm"
  shows "\<exists>ls. atm_lines h 0 (take 10 xs) = Inr ls \<and>
              length ls = min 10 (length xs) \<and>
              (\<forall>j < length ls. atm_line h j (xs ! j) = Inr (ls ! j)) \<and>
              invoke h w c (Find_nearby_atms la lo d) =
                (Inr [Text (''Found '' @ show_nat (length xs) @ '' ATMs nearby:\<newline>\<newline>'' @
                            (if xs = [] then ''No ATMs found'' else join ''\<newline>'' ls))],
                 c', t)"
proof -
  obtain ls where ls: "atm_lines h 0 (take 10 xs) = Inr ls" "length ls = length (take 10 xs)"
    "[] \<notin> set ls" "\<forall>j < length (take 10 xs). atm_line h (0 + j) (take 10 xs ! j) = Inr (ls ! j)"
    using atm_lines_ok [OF assms(4)] by blast
  have len: "length ls = min 10 (length xs)"
    using ls(2) by (simp add: min.commute)
  have each: "\<forall>j < length ls. atm_line h j (xs ! j) = Inr (ls ! j)"
    using ls(2,4) by simp
  have empty: "join ''\<newline>'' ls = [] \<longleftrightarrow> xs = []"
  proof
    assume "join ''\<newline>'' ls = []"
    then have "ls = []" using join_nonempty [OF _ ls(3)] by blast
    then show "xs = []" using len by (cases xs) simp_all
  next
    assume "xs = []"
    then show "join ''\<newline>'' ls = []" using ls(2) by simp
  qed
  note atms = assms(3)
  have "invoke h w c (Find_nearby_atms la lo d) =
          (Inr [Text (''Found '' @ show_nat (length xs) @ '' ATMs nearby:\<newline>\<newline>'' @
                      (if xs = [] then ''No ATMs found'' else join ''\<newline>'' ls))],
           c', t)"
    using assms(1) get_prop_nonnull [OF assms(2), of "''responseData''"] atms ls(1) empty
    by (simp add: find_nearby_atms_def)
  then show ?thesis using ls(1) len each by blast
qed

text \<open>
  A search result whose list holds a \<open>null\<close> entry among the first ten reports no count:
  the callback throws on that entry and the tool returns a failure envelope. So does a
  result with an entry whose name is an object with a property named \<open>toString\<close>.
\<close>

theorem null_entry_counterexample:
  "fst (findNearbyAtms
          (sample_world no_files (Inr (JObj [(''responseData'', JObj [(''atmList'', JArr [JNull])])])))
          sample_ready 48 2 (Some (num_or None 5)) None) =
     Inr (JObj [(''responseData'', JObj [(''atmList'', JArr [JNull])])]) \<and>
   fst (invoke sample_host
          (sample_world no_files (Inr (JObj [(''responseData'', JObj [(''atmList'', JArr [JNull])])])))
          sample_ready (Find_nearby_atms 48 2 None)) =
     Inr [Text (''Error: Cannot read properties of null (reading '' @ [CHR 0x27] @ ''atmName'' @ [CHR 0x27] @ '')'')] \<and>
   is_failure
     (fst (invoke sample_host
          (sample_world no_files (Inr (JObj [(''responseData'', JObj [(''atmList'', JArr [JNull])])])))
          sample_ready (Find_nearby_atms 48 2 None))) \<and>
   fst (invoke sample_host
          (sample_world no_files
             (Inr (JObj [(''responseData'',
                          JObj [(''atmList'',
                                 JArr [JObj [(''atmName'', JObj [(''toString'', JNum 1)])]])])])))
          sample_ready (Find_nearby_atms 48 2 None)) =
     Inr [Text ''Error: Cannot convert object to primitive value'']"
proof -
  have r: "initialized sample_ready" "client sample_ready = Some sample_instance"
    by (simp_all add: sample_ready_def)
  show ?thesis
    by (simp add: find_nearby_atms_def findNearbyAtms_def send_ready [OF r] sample_world_def
        atm_line_def on_error_def formatResponse_def structured_message_def cannot_convert_def)
qed

theorem atm_listing_counts_all_and_shows_ten_witness:
  "fst (findNearbyAtms (sample_world no_files (Inr sample_atm_response)) sample_ready 48 2
          (Some (num_or None 5)) None) = Inr sample_atm_response \<and>
   sample_atm_response \<noteq> JNull \<and>
   or_else (get_prop_opt (get_prop_opt (Some sample_atm_response) ''responseData'') ''atmList'') (JArr []) =
     JArr sample_atms \<and>
   list_all listable (take 10 sample_atms) \<and>
   length sample_atms = 11 \<and>
   fst (invoke sample_host (sample_world no_files (Inr sample_atm_response)) sample_ready
          (Find_nearby_atms 48 2 None)) =
     Inr [Text (''Found 11 ATMs nearby:\<newline>\<newline>'' @
                ''1. Louvre - Rue de Rivoli, Paris (2 km)\<newline>'' @
                ''2. ATM - Unknown,  (? km)\<newline>'' @
                ''3. ATM - Unknown,  (? km)\<newline>'' @
                ''4. ATM - Unknown,  (? km)\<newline>'' @
                ''5. ATM - Unknown,  (? km)\<newline>'' @
                ''6. ATM - Unknown,  (? km)\<newline>'' @
                ''7. ATM - Unknown,  (? km)\<newline>'' @
                ''8. ATM - Unknown,  (? km)\<newline>'' @
                ''9. ATM - Unknown,  (? km)\<newline>'' @
                ''10. ATM - Unknown,  (? km)'')]"
proof -
  have r: "initialized sample_ready" "client sample_ready = Some sample_instance"
    by (simp_all add: sample_ready_def)
  have f: "fst (findNearbyAtms (sample_world no_files (Inr sample_atm_response)) sample_ready 48 2
          (Some (num_or None 5)) None) = Inr sample_atm_response"
    by (simp add: findNearbyAtms_def send_ready [OF r] sample_world_def)
  have n: "sample_atm_response \<noteq> JNull"
    by (simp add: sample_atm_response_def)
  have l: "or_else (get_prop_opt (get_prop_opt (Some sample_atm_response) ''responseData'') ''atmList'') (JArr []) =
     JArr sample_atms"
    by (simp add: sample_atm_response_def)
  have z: "list_all listable (take 10 sample_atms)" and len: "length sample_atms = 11"
    by (simp_all add: sample_atms_def listable_def)
  then have z': "\<forall>atm \<in> set (take 10 sample_atms). listable atm"
    by (simp add: list_all_iff)
  have lines: "atm_lines sample_host 0 (take 10 sample_atms) =
      Inr [''1. Louvre - Rue de Rivoli, Paris (2 km)'',
           ''2. ATM - Unknown,  (? km)'', ''3. ATM - Unknown,  (? km)'',
           ''4. ATM - Unknown,  (? km)'', ''5. ATM - Unknown,  (? km)'',
           ''6. ATM - Unknown,  (? km)'', ''7. ATM - Unknown,  (? km)'',
           ''8. ATM - Unknown,  (? km)'', ''9. ATM - Unknown,  (? km)'',
           ''10. ATM - Unknown,  (? km)'']"
    by (simp add: sample_atms_def atm_line_def show_nat.simps sample_host_def)
  from atm_listing_counts_all_and_shows_ten [OF outcome_collapse [OF f] n l z', of sample_host]
  obtain ls where ls: "atm_lines sample_host 0 (take 10 sample_atms) = Inr ls"
    and i: "invoke sample_host (sample_world no_files (Inr sample_atm_response)) sample_ready
              (Find_nearby_atms 48 2 None) =
            (Inr [Text (''Found '' @ show_nat (length sample_atms) @ '' ATMs nearby:\<newline>\<newline>'' @
                        (if sample_atms = [] then ''No ATMs found'' else join ''\<newline>'' ls))],
             fst (snd (findNearbyAtms (sample_world no_files (Inr sample_atm_response)) sample_ready 48 2
                         (Some (num_or None 5)) None)),
             snd (snd (findNearbyAtms (sample_world no_files (Inr sample_atm_response)) sample_ready 48 2
                         (Some (num_or None 5)) None)))"
    by blast
  have ne: "sample_atms \<noteq> []" using len by auto
  have s11: "show_nat 11 = ''11''" by (simp add: show_nat.simps)
  have "fst (invoke sample_host (sample_world no_files (Inr sample_atm_response)) sample_ready
          (Find_nearby_atms 48 2 None)) =
        Inr [Text (''Found 11 ATMs nearby:\<newline>\<newline>'' @ join ''\<newline>'' ls)]"
    unfolding i using ne len s11 by simp
  moreover have "ls = [''1. Louvre - Rue de Rivoli, Paris (2 km)'',
           ''2. ATM - Unknown,  (? km)'', ''3. ATM - Unknown,  (? km)'',
           ''4. ATM - Unknown,  (? km)'', ''5. ATM - Unknown,  (? km)'',
           ''6. ATM - Unknown,  (? km)'', ''7. ATM - Unknown,  (? km)'',
           ''8. ATM - Unknown,  (? km)'', ''9. ATM - Unknown,  (? km)'',
           ''10. ATM - Unknown,  (? km)'']"
    using ls lines by simp
  ultimately show ?thesis
    using f n l z len by simp
qed

section \<open>Falsy optional arguments\<close>

lemma invoke_trace_update:
  "snd (snd (invoke h w c (Vsps_update_stop sid m n))) =
   snd (snd (vspsUpdateStop w c sid (stop_updates m n)))"
  by (simp add: vsps_update_stop_def try_format_trace)

lemma invoke_trace_eligible:
  "snd (snd (invoke h w c (Vsps_search_eligible pan days))) =
   snd (snd (vspsSearchEligible w c pan (Some (num_or days 90))))"
  by (simp add: vsps_search_eligible_def try_format_trace)

lemma invoke_trace_atms:
  "snd (snd (invoke h w c (Find_nearby_atms la lo d))) =
   snd (snd (findNearbyAtms w c la lo (Some (num_or d 5)) None))"
  by (simp add: find_nearby_atms_trace)

text \<open>
  Claim C10. A tool called with an optional argument that is supplied but falsy (the empty
  string, the number zero) returns exactly what it returns without that argument: so for
  \<open>merchantId\<close> and \<open>notes\<close> of \<open>vsps_update_stop\<close>, \<open>days\<close> of \<open>vsps_search_eligible\<close>,
  \<open>distance\<close> of \<open>find_nearby_atms\<close>, \<open>reason\<close> of \<open>vsm_add_merchant\<close>, and \<open>merchantId\<close>
  and \<open>mcc\<close> of \<open>vsps_add_stop\<close>. On an initialized client the update body then holds
  \<open>stopId\<close> and the arguments that are not empty only, \<open>days = 0\<close> is sent as
  \<open>searchPeriodDays: 90\<close>, and \<open>distance = 0\<close> is sent as \<open>distance: 5\<close>.
\<close>

theorem falsy_optional_arguments_count_as_absent:
  "invoke h w c (Vsps_update_stop sid (Some []) notes) = invoke h w c (Vsps_update_stop sid None notes) \<and>
   invoke h w c (Vsps_update_stop sid mid (Some [])) = invoke h w c (Vsps_update_stop sid mid None) \<and>
   invoke h w c (Vsps_search_eligible pan (Some 0)) = invoke h w c (Vsps_search_eligible pan None) \<and>
   invoke h w c (Vsps_search_eligible pan (Some 0)) = invoke h w c (Vsps_search_eligible pan (Some 90)) \<and>
   invoke h w c (Find_nearby_atms la lo (Some 0)) = invoke h w c (Find_nearby_atms la lo None) \<and>
   invoke h w c (Find_nearby_atms la lo (Some 0)) = invoke h w c (Find_nearby_atms la lo (Some 5)) \<and>
   invoke h w c (Vsm_add_merchant pan mid' (Some [])) = invoke h w c (Vsm_add_merchant pan mid' None) \<and>
   invoke h w c (Vsps_add_stop pan lvl (Some []) mcc) = invoke h w c (Vsps_add_stop pan lvl None mcc) \<and>
   invoke h w c (Vsps_add_stop pan lvl mid (Some [])) = invoke h w c (Vsps_add_stop pan lvl mid None) \<and>
   (initialized c \<and> client c = Some inst \<longrightarrow>
      bodies (snd (snd (invoke h w c (Vsps_update_stop sid (Some []) (Some []))))) =
        [JObj [(''stopId'', JStr sid)]] \<and>
      (\<forall>n. n \<noteq> [] \<longrightarrow>
         bodies (snd (snd (invoke h w c (Vsps_update_stop sid (Some []) (Some n))))) =
           [JObj [(''stopId'', JStr sid), (''notes'', JStr n)]]) \<and>
      (\<forall>m. m \<noteq> [] \<longrightarrow>
         bodies (snd (snd (invoke h w c (Vsps_update_stop sid (Some m) (Some []))))) =
           [JObj [(''stopId'', JStr sid), (''merchantId'', JStr m)]]) \<and>
      bodies (snd (snd (invoke h w c (Vsps_search_eligible pan (Some 0))))) =
        [JObj [(''pan'', JStr pan), (''searchPeriodDays'', JNum 90)]] \<and>
      bodies (snd (snd (invoke h w c (Find_nearby_atms la lo (Some 0))))) =
        [JObj
          [(''wsRequestHeaderV2'',
              JObj [(''requestTs'', JStr (now w)), (''applicationId'', JStr ''VISA_MCP'')]),
           (''requestData'',
              JObj [(''location'',
                       JObj [(''geocodes'', JObj [(''latitude'', JNum la), (''longitude'', JNum lo)])]),
                    (''options'',
                       JObj [(''range'', JObj [(''distance'', JNum 5), (''distanceUnit'', JStr ''km'')]),
                             (''findFilters'', JArr []),
                             (''sort'', JObj [(''primary'', JStr ''distance''),
                                              (''direction'', JStr ''asc'')])])])]])"
proof -
  have eqs: "invoke h w c (Vsps_update_stop sid (Some []) notes) = invoke h w c (Vsps_update_stop sid None notes)"
    "invoke h w c (Vsps_update_stop sid mid (Some [])) = invoke h w c (Vsps_update_stop sid mid None)"
    "invoke h w c (Vsps_search_eligible pan (Some 0)) = invoke h w c (Vsps_search_eligible pan None)"
    "invoke h w c (Vsps_search_eligible pan (Some 0)) = invoke h w c (Vsps_search_eligible pan (Some 90))"
    "invoke h w c (Find_nearby_atms la lo (Some 0)) = invoke h w c (Find_nearby_atms la lo None)"
    "invoke h w c (Find_nearby_atms la lo (Some 0)) = invoke h w c (Find_nearby_atms la lo (Some 5))"
    "invoke h w c (Vsm_add_merchant pan mid' (Some [])) = invoke h w c (Vsm_add_merchant pan mid' None)"
    "invoke h w c (Vsps_add_stop pan lvl (Some []) mcc) = invoke h w c (Vsps_add_stop pan lvl None mcc)"
    "invoke h w c (Vsps_add_stop pan lvl mid (Some [])) = invoke h w c (Vsps_add_stop pan lvl mid None)"
    by (simp_all add: vsps_update_stop_def stop_updates_def vsps_search_eligible_def
        find_nearby_atms_def vsm_add_merchant_def vsmAddMerchant_def vsps_add_stop_def
        vspsAddStop_def addStopPayload_def Let_def)
  have b: "bodies (snd (snd (invoke h w c (Vsps_update_stop sid (Some []) (Some []))))) =
        [JObj [(''stopId'', JStr sid)]] \<and>
      (\<forall>n. n \<noteq> [] \<longrightarrow>
         bodies (snd (snd (invoke h w c (Vsps_update_stop sid (Some []) (Some n))))) =
           [JObj [(''stopId'', JStr sid), (''notes'', JStr n)]]) \<and>
      (\<forall>m. m \<noteq> [] \<longrightarrow>
         bodies (snd (snd (invoke h w c (Vsps_update_stop sid (Some m) (Some []))))) =
           [JObj [(''stopId'', JStr sid), (''merchantId'', JStr m)]]) \<and>
      bodies (snd (snd (invoke h w c (Vsps_search_eligible pan (Some 0))))) =
        [JObj [(''pan'', JStr pan), (''searchPeriodDays'', JNum 90)]] \<and>
      bodies (snd (snd (invoke h w c (Find_nearby_atms la lo (Some 0))))) =
        [JObj
          [(''wsRequestHeaderV2'',
              JObj [(''requestTs'', JStr (now w)), (''applicationId'', JStr ''VISA_MCP'')]),
           (''requestData'',
              JObj [(''location'',
                       JObj [(''geocodes'', JObj [(''latitude'', JNum la), (''longitude'', JNum lo)])]),
                    (''options'',
                       JObj [(''range'', JObj [(''distance'', JNum 5), (''distanceUnit'', JStr ''km'')]),
                             (''findFilters'', JArr []),
                             (''sort'', JObj [(''primary'', JStr ''distance''),
                                              (''direction'', JStr ''asc'')])])])]]"
    if "initialized c" and "client c = Some inst"
    unfolding invoke_trace_update invoke_trace_eligible invoke_trace_atms
    by (simp add: vspsUpdateStop_def vspsSearchEligible_def findNearbyAtms_def
        send_ready_bodies [OF that] stop_updates_def spread_def)
  show ?thesis
    using eqs b by blast
qed

theorem falsy_optional_arguments_count_as_absent_witness:
  "initialized sample_ready \<and> client sample_ready = Some sample_instance \<and>
   bodies (snd (snd (invoke sample_host (sample_world no_files (Inr JNull)) sample_ready
                       (Vsps_update_stop ''S1'' (Some []) (Some []))))) =
     [JObj [(''stopId'', JStr ''S1'')]] \<and>
   bodies (snd (snd (invoke sample_host (sample_world no_files (Inr JNull)) sample_ready
                       (Vsps_search_eligible ''4111111111111111'' (Some 0))))) =
     [JObj [(''pan'', JStr ''4111111111111111''), (''searchPeriodDays'', JNum 90)]] \<and>
   invoke sample_host (sample_world no_files (Inr JNull)) sample_ready (Find_nearby_atms 48 2 (Some 0)) =
   invoke sample_host (sample_world no_files (Inr JNull)) sample_ready (Find_nearby_atms 48 2 (Some 5))"
proof -
  have r: "initialized sample_ready \<and> client sample_ready = Some sample_instance"
    by (simp add: sample_ready_def)
  from falsy_optional_arguments_count_as_absent
    [of sample_host "sample_world no_files (Inr JNull)" sample_ready "''S1''" _ _
        "''4111111111111111''" 48 2 _ _ _ sample_instance] r
  show ?thesis by blast
qed

end
